theory Spec2Isabelle
  imports Complex_Main "HOL-Library.Sublist"
begin

section \<open>Strings\<close>

text \<open>
  A JavaScript string is modelled as a \<open>string\<close>, a list of 8-bit characters: the
  character numbered \<open>k\<close> is the UTF-16 code unit \<open>k\<close>, so the strings of the model are
  those whose code units are all below 256 (ASCII and the Latin-1 supplement), and
  \<open>length\<close> is the \<open>length\<close> of the code. Every keyword, type code and state name of the
  program is ASCII.

  \<open>toLowerCase\<close> on these characters: \<open>A\<close> to \<open>Z\<close> (65 to 90) and the Latin-1 capitals
  U+00C0 to U+00DE, the multiplication sign U+00D7 apart, move up by 32; every other
  character is its own lower case.
\<close>

definition lower_char :: "char \<Rightarrow> char" where
  "lower_char c =
     (let k = of_char c :: nat
      in if (65 \<le> k \<and> k \<le> 90) \<or> (192 \<le> k \<and> k \<le> 222 \<and> k \<noteq> 215)
         then char_of (k + 32)
         else c)"

definition toLowerCase :: "string \<Rightarrow> string" where
  "toLowerCase s = map lower_char s"

text \<open>\<open>t.includes(k)\<close>: \<open>k\<close> occurs in \<open>t\<close> as a contiguous run of characters.\<close>

fun str_includes :: "string \<Rightarrow> string \<Rightarrow> bool" where
  "str_includes [] k = (k = [])"
| "str_includes (c # cs) k = (prefix k (c # cs) \<or> str_includes cs k)"

text \<open>\<open>s.split(d)\<close> for a one-character separator; \<open>"".split("/")\<close> is \<open>[""]\<close>.\<close>

fun split_on :: "char \<Rightarrow> string \<Rightarrow> string list" where
  "split_on d [] = [[]]"
| "split_on d (c # cs) =
     (if c = d then [] # split_on d cs
      else (case split_on d cs of
              [] \<Rightarrow> [[c]]
            | p # ps \<Rightarrow> (c # p) # ps))"

text \<open>\<open>xs.indexOf(x)\<close>, with \<open>None\<close> for the result \<open>-1\<close>.\<close>

fun index_of :: "'a list \<Rightarrow> 'a \<Rightarrow> nat option" where
  "index_of [] x = None"
| "index_of (y # ys) x = (if y = x then Some 0 else map_option Suc (index_of ys x))"

definition is_digit :: "char \<Rightarrow> bool" where
  "is_digit c = (c \<in> set ''0123456789'')"

text \<open>
  \<open>trim\<close> removes white space and line terminators from both ends. Among the code units
  below 256 these are the tab, the line feed, the vertical tab, the form feed, the carriage
  return, the space and the no-break space U+00A0.
\<close>

definition is_space :: "char \<Rightarrow> bool" where
  "is_space c =
     (c \<in> set [CHR 0x09, CHR 0x0A, CHR 0x0B, CHR 0x0C, CHR 0x0D, CHR '' '', CHR 0xA0])"

definition trim :: "string \<Rightarrow> string" where
  "trim s = rev (dropWhile is_space (rev (dropWhile is_space s)))"

definition digit_char :: "nat \<Rightarrow> char" where
  "digit_char d = ''0123456789'' ! d"

fun decimal :: "nat \<Rightarrow> string" where
  "decimal n = (if n < 10 then [digit_char n] else decimal (n div 10) @ [digit_char (n mod 10)])"

declare decimal.simps [simp del]

definition decimal_value :: "string \<Rightarrow> nat" where
  "decimal_value s = foldl (\<lambda>a c. 10 * a + (of_char c - 48)) 0 s"


section \<open>JavaScript values\<close>

text \<open>
  A Number is NaN, an infinity or a finite value; every finite double is a rational, and
  \<open>%\<close>, the comparisons and \<open>Math.floor\<close> are exact on doubles, so they are computed on the
  rational. (The two zeros are identified: no operation below tells them apart.)
\<close>

datatype jsnum = NaN | PosInf | NegInf | Fin rat

text \<open>
  The values a field of a decoded JSON record or a property lookup can hold: \<open>JObj\<close> is a
  plain object with the default conversions, \<open>JNative f\<close> the built-in function named \<open>f\<close>.
\<close>

datatype jsval =
    JUndefined
  | JNull
  | JBool bool
  | JNum jsnum
  | JStr string
  | JObj
  | JNative string

fun truthy :: "jsval \<Rightarrow> bool" where
  "truthy JUndefined = False"
| "truthy JNull = False"
| "truthy (JBool b) = b"
| "truthy (JNum n) = (n \<noteq> NaN \<and> n \<noteq> Fin 0)"
| "truthy (JStr s) = (s \<noteq> [])"
| "truthy JObj = True"
| "truthy (JNative f) = True"

text \<open>\<open>a || b\<close>\<close>

definition or_else :: "jsval \<Rightarrow> jsval \<Rightarrow> jsval" where
  "or_else a b = (if truthy a then a else b)"

text \<open>
  What the JavaScript runtime computes and this development does not: the conversion of a
  string to a Number where it is not a run of at most 15 decimal digits (\<open>StringToNumber\<close>
  rounds to a double), the decimal rendering of a Number that is not a safe integer
  (one of magnitude at most \<open>2^53 - 1\<close>), and
  the URL parser (\<open>new URL(s).pathname\<close>, \<open>None\<close> where the constructor throws). They are
  parameters of the model: a theorem stated for every \<open>P\<close> holds for the real runtime.
  The fourth parameter stands for the upper-case forms of the micro sign U+00B5 and of
  U+00FF, each a single code unit above 255 (U+039C and U+0178), which no character of the
  model is: \<open>UpperCase_wide\<close> gives the one character put in its place.
\<close>

record platform =
  StringToNumber :: "string \<Rightarrow> jsnum"
  NumberToString :: "rat \<Rightarrow> string"
  URL_pathname :: "string \<Rightarrow> string option"
  UpperCase_wide :: "char \<Rightarrow> char"

text \<open>
  \<open>toUpperCase\<close> on the characters of the model: \<open>a\<close> to \<open>z\<close> (97 to 122) and the Latin-1
  small letters U+00E0 to U+00FE, the division sign U+00F7 apart, move down by 32; the
  sharp s U+00DF becomes the two letters \<open>SS\<close>; U+00B5 and U+00FF become one code unit
  each, outside the model; every other character is its own upper case.
\<close>

definition upper_unit :: "platform \<Rightarrow> char \<Rightarrow> string" where
  "upper_unit P c =
     (let k = of_char c :: nat
      in if (97 \<le> k \<and> k \<le> 122) \<or> (224 \<le> k \<and> k \<le> 254 \<and> k \<noteq> 247)
         then [char_of (k - 32)]
         else if k = 223 then ''SS''
         else if k = 181 \<or> k = 255 then [UpperCase_wide P c]
         else [c])"

definition toUpperCase :: "platform \<Rightarrow> string \<Rightarrow> string" where
  "toUpperCase P s = concat (map (upper_unit P) s)"

definition is_safe_integer :: "rat \<Rightarrow> bool" where
  "is_safe_integer r = (r = of_int \<lfloor>r\<rfloor> \<and> \<bar>r\<bar> \<le> 9007199254740991)"

text \<open>\<open>String(n)\<close> for a Number \<open>n\<close>\<close>

definition num_to_string :: "platform \<Rightarrow> jsnum \<Rightarrow> string" where
  "num_to_string P n =
     (case n of
        NaN \<Rightarrow> ''NaN''
      | PosInf \<Rightarrow> ''Infinity''
      | NegInf \<Rightarrow> ''-Infinity''
      | Fin r \<Rightarrow>
          if is_safe_integer r
          then (if r < 0 then ''-'' @ decimal (nat (- \<lfloor>r\<rfloor>)) else decimal (nat \<lfloor>r\<rfloor>))
          else NumberToString P r)"

text \<open>\<open>Number(s)\<close> for a string \<open>s\<close>\<close>

definition string_to_number :: "platform \<Rightarrow> string \<Rightarrow> jsnum" where
  "string_to_number P s =
     (if s = [] then Fin 0
      else if list_all is_digit s \<and> length s \<le> 15
      then Fin (of_nat (decimal_value s))
      else StringToNumber P s)"

text \<open>\<open>Number(v)\<close>\<close>

fun to_number :: "platform \<Rightarrow> jsval \<Rightarrow> jsnum" where
  "to_number P JUndefined = NaN"
| "to_number P JNull = Fin 0"
| "to_number P (JBool b) = Fin (if b then 1 else 0)"
| "to_number P (JNum n) = n"
| "to_number P (JStr s) = string_to_number P s"
| "to_number P JObj = NaN"
| "to_number P (JNative f) = NaN"

text \<open>\<open>String(v)\<close>, also the conversion of a template literal and of \<open>v + "..."\<close>\<close>

fun to_string :: "platform \<Rightarrow> jsval \<Rightarrow> string" where
  "to_string P JUndefined = ''undefined''"
| "to_string P JNull = ''null''"
| "to_string P (JBool b) = (if b then ''true'' else ''false'')"
| "to_string P (JNum n) = num_to_string P n"
| "to_string P (JStr s) = s"
| "to_string P JObj = ''[object Object]''"
| "to_string P (JNative f) = ''function '' @ f @ ''() { [native code] }''"

text \<open>Truncation towards zero, and \<open>a % m\<close> for a finite non-zero \<open>m\<close>.\<close>

definition trunc :: "rat \<Rightarrow> int" where
  "trunc q = (if q < 0 then \<lceil>q\<rceil> else \<lfloor>q\<rfloor>)"

fun js_rem :: "jsnum \<Rightarrow> rat \<Rightarrow> jsnum" where
  "js_rem (Fin r) m = Fin (r - m * of_int (trunc (r / m)))"
| "js_rem NaN m = NaN"
| "js_rem PosInf m = NaN"
| "js_rem NegInf m = NaN"

text \<open>\<open>a >= k\<close> and \<open>a <= k\<close> for a finite \<open>k\<close>: false on NaN.\<close>

fun js_ge :: "jsnum \<Rightarrow> rat \<Rightarrow> bool" where
  "js_ge (Fin r) k = (k \<le> r)"
| "js_ge PosInf k = True"
| "js_ge NegInf k = False"
| "js_ge NaN k = False"

fun js_le :: "jsnum \<Rightarrow> rat \<Rightarrow> bool" where
  "js_le (Fin r) k = (r \<le> k)"
| "js_le PosInf k = False"
| "js_le NegInf k = True"
| "js_le NaN k = False"

text \<open>
  A property read \<open>obj[key]\<close> on an object literal whose own properties are strings: an own
  property first, then the properties every plain object inherits from
  \<open>Object.prototype\<close>, then \<open>undefined\<close>.
\<close>

definition Object_prototype :: "(string \<times> jsval) list" where
  "Object_prototype =
     [(''constructor'', JNative ''Object''),
      (''__defineGetter__'', JNative ''__defineGetter__''),
      (''__defineSetter__'', JNative ''__defineSetter__''),
      (''hasOwnProperty'', JNative ''hasOwnProperty''),
      (''__lookupGetter__'', JNative ''__lookupGetter__''),
      (''__lookupSetter__'', JNative ''__lookupSetter__''),
      (''isPrototypeOf'', JNative ''isPrototypeOf''),
      (''propertyIsEnumerable'', JNative ''propertyIsEnumerable''),
      (''toString'', JNative ''toString''),
      (''valueOf'', JNative ''valueOf''),
      (''__proto__'', JObj),
      (''toLocaleString'', JNative ''toLocaleString'')]"

definition get_property :: "(string \<times> string) list \<Rightarrow> string \<Rightarrow> jsval" where
  "get_property obj key =
     (case map_of obj key of
        Some v \<Rightarrow> JStr v
      | None \<Rightarrow>
          (case map_of Object_prototype key of
             Some v \<Rightarrow> v
           | None \<Rightarrow> JUndefined))"

datatype exn = TypeError

text \<open>\<open>v.toLowerCase()\<close>: a TypeError unless \<open>v\<close> is a string.\<close>

fun call_toLowerCase :: "jsval \<Rightarrow> exn + string" where
  "call_toLowerCase (JStr s) = Inr (toLowerCase s)"
| "call_toLowerCase v = Inl TypeError"


section \<open>get-bills.js\<close>

definition TYPE_MAP :: "(string \<times> string) list" where
  "TYPE_MAP =
     [(''hr'', ''house-bill''),
      (''s'', ''senate-bill''),
      (''hjres'', ''house-joint-resolution''),
      (''sjres'', ''senate-joint-resolution''),
      (''hconres'', ''house-concurrent-resolution''),
      (''sconres'', ''senate-concurrent-resolution''),
      (''hres'', ''house-resolution''),
      (''sres'', ''senate-resolution'')]"

definition ordinalSuffix :: "platform \<Rightarrow> jsval \<Rightarrow> string" where
  "ordinalSuffix P n =
     (let num = to_number P n;
          mod100 = js_rem num 100
      in if js_ge mod100 11 \<and> js_le mod100 13 then num_to_string P num @ ''th''
         else let mod10 = js_rem num 10
              in if mod10 = Fin 1 then num_to_string P num @ ''st''
                 else if mod10 = Fin 2 then num_to_string P num @ ''nd''
                 else if mod10 = Fin 3 then num_to_string P num @ ''rd''
                 else num_to_string P num @ ''th'')"

record stage =
  display :: string
  priority :: nat

definition deriveBillStage :: "jsval \<Rightarrow> exn + stage" where
  "deriveBillStage actionText =
     (case call_toLowerCase (or_else actionText (JStr '''')) of
        Inl e \<Rightarrow> Inl e
      | Inr t \<Rightarrow>
          Inr (if str_includes t ''became public law'' \<or> str_includes t ''signed by president''
                    \<or> str_includes t ''enacted''
               then \<lparr>display = ''Signed Into Law'', priority = 10\<rparr>
               else if str_includes t ''vetoed''
               then \<lparr>display = ''Vetoed'', priority = 9\<rparr>
               else if str_includes t ''passed house'' \<or> str_includes t ''passed senate''
                    \<or> str_includes t ''agreed to in''
               then \<lparr>display = ''Passed Chamber'', priority = 8\<rparr>
               else if str_includes t ''cloture'' \<or> str_includes t ''floor consideration''
                    \<or> str_includes t ''placed on calendar''
               then \<lparr>display = ''Floor Vote Pending'', priority = 7\<rparr>
               else if str_includes t ''reported by'' \<or> str_includes t ''ordered to be reported''
               then \<lparr>display = ''Reported by Committee'', priority = 6\<rparr>
               else if str_includes t ''hearing'' \<or> str_includes t ''markup''
               then \<lparr>display = ''Committee Hearing'', priority = 5\<rparr>
               else if str_includes t ''referred to'' \<or> str_includes t ''subcommittee''
               then \<lparr>display = ''In Committee'', priority = 4\<rparr>
               else if str_includes t ''introduced'' \<or> str_includes t ''read twice''
                    \<or> str_includes t ''sponsor introductory''
               then \<lparr>display = ''Introduced'', priority = 3\<rparr>
               else \<lparr>display = ''In Progress'', priority = 3\<rparr>))"

text \<open>
  The stage classifier as the specification words it: an ordered list of keyword groups,
  each with its label and priority; the first group with a keyword contained in the
  lower-cased text wins, and \<open>("In Progress", 3)\<close> is the default.
\<close>

definition stage_rules :: "(string list \<times> stage) list" where
  "stage_rules =
     [([''became public law'', ''signed by president'', ''enacted''],
         \<lparr>display = ''Signed Into Law'', priority = 10\<rparr>),
      ([''vetoed''], \<lparr>display = ''Vetoed'', priority = 9\<rparr>),
      ([''passed house'', ''passed senate'', ''agreed to in''],
         \<lparr>display = ''Passed Chamber'', priority = 8\<rparr>),
      ([''cloture'', ''floor consideration'', ''placed on calendar''],
         \<lparr>display = ''Floor Vote Pending'', priority = 7\<rparr>),
      ([''reported by'', ''ordered to be reported''],
         \<lparr>display = ''Reported by Committee'', priority = 6\<rparr>),
      ([''hearing'', ''markup''], \<lparr>display = ''Committee Hearing'', priority = 5\<rparr>),
      ([''referred to'', ''subcommittee''], \<lparr>display = ''In Committee'', priority = 4\<rparr>),
      ([''introduced'', ''read twice'', ''sponsor introductory''],
         \<lparr>display = ''Introduced'', priority = 3\<rparr>)]"

definition rule_matches :: "string \<Rightarrow> string list \<times> stage \<Rightarrow> bool" where
  "rule_matches t r = list_ex (str_includes t) (fst r)"

fun first_match :: "(string list \<times> stage) list \<Rightarrow> string \<Rightarrow> stage" where
  "first_match [] t = \<lparr>display = ''In Progress'', priority = 3\<rparr>"
| "first_match (r # rs) t = (if rule_matches t r then snd r else first_match rs t)"

definition spec_stage :: "string \<Rightarrow> stage" where
  "spec_stage text = first_match stage_rules (toLowerCase text)"


text \<open>The template literal of both return statements of \<open>buildPublicUrl\<close>.\<close>

definition public_url :: "string \<Rightarrow> string \<Rightarrow> string \<Rightarrow> string" where
  "public_url ord slug num =
     ''https://www.congress.gov/bill/'' @ ord @ ''-congress/'' @ slug @ ''/'' @ num"

text \<open>
  A bill record as the upstream JSON gives it: the five fields \<open>buildPublicUrl\<close> reads
  (\<open>congress\<close>, \<open>type\<close>, \<open>number\<close>, \<open>url\<close>, \<open>apiUrl\<close>), each any JavaScript value,
  \<open>JUndefined\<close> when the field is missing.
\<close>

record bill =
  bill_congress :: jsval
  bill_type :: jsval
  bill_number :: jsval
  bill_url :: jsval
  bill_apiUrl :: jsval

text \<open>
  The primary path (the first \<open>if\<close> of \<open>buildPublicUrl\<close>), on the three values the function
  has computed from the fields; \<open>None\<close> when control falls through to the fallback.
\<close>

definition primary_url :: "platform \<Rightarrow> jsval \<Rightarrow> string \<Rightarrow> jsval \<Rightarrow> string option" where
  "primary_url P congress ty number =
     (if truthy congress \<and> ty \<noteq> [] \<and> truthy number
      then let slug = get_property TYPE_MAP ty
           in if truthy slug
              then let num = filter is_digit (to_string P number)
                   in if num \<noteq> []
                      then Some (public_url (ordinalSuffix P congress) (to_string P slug) num)
                      else None
              else None
      else None)"

text \<open>
  The fallback reads the raw URL: the path is split at \<open>/\<close>, empty segments are dropped,
  and the three segments after the first segment \<open>bill\<close> are the congress, the lower-cased
  type and the number. \<open>None\<close> when the URL constructor throws (the \<open>catch\<close> swallows it),
  when no segment is \<open>bill\<close> or when fewer than three segments follow it.
\<close>

definition url_bill_parts :: "platform \<Rightarrow> string \<Rightarrow> (string \<times> string \<times> string) option" where
  "url_bill_parts P raw =
     (case URL_pathname P raw of
        None \<Rightarrow> None
      | Some pathname \<Rightarrow>
          (let parts = filter (\<lambda>p. p \<noteq> []) (split_on CHR ''/'' pathname)
           in case index_of parts ''bill'' of
                None \<Rightarrow> None
              | Some i \<Rightarrow>
                  if i + 4 \<le> length parts
                  then Some (parts ! (i + 1), toLowerCase (parts ! (i + 2)), parts ! (i + 3))
                  else None))"

definition fallback_url :: "platform \<Rightarrow> bill \<Rightarrow> string" where
  "fallback_url P b =
     (case url_bill_parts P
             (to_string P (or_else (or_else (bill_url b) (bill_apiUrl b)) (JStr ''''))) of
        Some (c, t, n) \<Rightarrow>
          public_url (ordinalSuffix P (JStr c))
            (to_string P (or_else (get_property TYPE_MAP t) (JStr (t @ ''-bill'')))) n
      | None \<Rightarrow> ''https://www.congress.gov/'')"

definition buildPublicUrl :: "platform \<Rightarrow> bill \<Rightarrow> exn + string" where
  "buildPublicUrl P b =
     (let congress = or_else (bill_congress b) (JStr '''')
      in case call_toLowerCase (or_else (bill_type b) (JStr '''')) of
           Inl e \<Rightarrow> Inl e
         | Inr ty \<Rightarrow>
             (let number = or_else (bill_number b) (JStr '''')
              in case primary_url P congress ty number of
                   Some u \<Rightarrow> Inr u
                 | None \<Rightarrow> Inr (fallback_url P b)))"


section \<open>A runtime instance for the examples\<close>

text \<open>
  \<open>plain_pathname\<close> is the URL parser on an \<open>https\<close> URL written as
  \<open>https://host/path\<close> whose host and path hold only characters the parser leaves as they
  are (letters, digits, \<open>-\<close>, and \<open>/\<close> between non-empty segments other than dots); a
  string with no scheme makes the constructor throw. \<open>plain_platform\<close> is used only to
  evaluate the model on such inputs; its two number conversions and its wide upper-case
  character are never reached there.
\<close>

definition plain_pathname :: "string \<Rightarrow> string option" where
  "plain_pathname s =
     (if prefix ''https://'' s
      then let rest = drop 8 s;
               host = takeWhile (\<lambda>c. c \<notin> set ''/?#'') rest;
               path = takeWhile (\<lambda>c. c \<notin> set ''?#'') (dropWhile (\<lambda>c. c \<notin> set ''/?#'') rest)
           in if host = [] then None else Some (if path = [] then ''/'' else path)
      else None)"

definition plain_platform :: platform where
  "plain_platform =
     \<lparr>StringToNumber = (\<lambda>s. NaN), NumberToString = (\<lambda>r. []), URL_pathname = plain_pathname,
      UpperCase_wide = (\<lambda>c. c)\<rparr>"


text \<open>The bill H.R. 187 of the 119th Congress, with no raw URL.\<close>

definition hr187 :: bill where
  "hr187 = \<lparr>bill_congress = JNum (Fin 119), bill_type = JStr ''hr'', bill_number = JStr ''187'',
            bill_url = JUndefined, bill_apiUrl = JUndefined\<rparr>"


section \<open>state-bills.js\<close>

definition STATE_NAME_TO_ABBR :: "(string \<times> string) list" where
  "STATE_NAME_TO_ABBR =
     [(''alabama'', ''AL''), (''alaska'', ''AK''), (''arizona'', ''AZ''),
      (''arkansas'', ''AR''), (''california'', ''CA''), (''colorado'', ''CO''),
      (''connecticut'', ''CT''), (''delaware'', ''DE''), (''florida'', ''FL''),
      (''georgia'', ''GA''), (''hawaii'', ''HI''), (''idaho'', ''ID''),
      (''illinois'', ''IL''), (''indiana'', ''IN''), (''iowa'', ''IA''),
      (''kansas'', ''KS''), (''kentucky'', ''KY''), (''louisiana'', ''LA''),
      (''maine'', ''ME''), (''maryland'', ''MD''), (''massachusetts'', ''MA''),
      (''michigan'', ''MI''), (''minnesota'', ''MN''), (''mississippi'', ''MS''),
      (''missouri'', ''MO''), (''montana'', ''MT''), (''nebraska'', ''NE''),
      (''nevada'', ''NV''), (''new hampshire'', ''NH''), (''new jersey'', ''NJ''),
      (''new mexico'', ''NM''), (''new york'', ''NY''), (''north carolina'', ''NC''),
      (''north dakota'', ''ND''), (''ohio'', ''OH''), (''oklahoma'', ''OK''),
      (''oregon'', ''OR''), (''pennsylvania'', ''PA''), (''rhode island'', ''RI''),
      (''south carolina'', ''SC''), (''south dakota'', ''SD''), (''tennessee'', ''TN''),
      (''texas'', ''TX''), (''utah'', ''UT''), (''vermont'', ''VT''),
      (''virginia'', ''VA''), (''washington'', ''WA''), (''west virginia'', ''WV''),
      (''wisconsin'', ''WI''), (''wyoming'', ''WY''), (''district of columbia'', ''DC'')]"

text \<open>
  \<open>normalizeState\<close> returns a string, or whatever the property read on the name table
  finds: for the name of an inherited property that is a built-in object, which is truthy.
\<close>

definition normalizeState :: "platform \<Rightarrow> jsval \<Rightarrow> jsval" where
  "normalizeState P input =
     (let s = trim (to_string P (or_else input (JStr '''')))
      in if s = [] then JStr ''''
         else if length s = 2 then JStr (toUpperCase P s)
         else let key = toLowerCase s
              in or_else (get_property STATE_NAME_TO_ABBR key) (JStr ''''))"

text \<open>
  \<open>toInt\<close>: the results are non-negative integers (\<open>Math.floor\<close> of a finite Number that is
  at least 0, or the default, which both call sites give as 50 or 0).
\<close>

definition toInt :: "platform \<Rightarrow> jsval \<Rightarrow> nat \<Rightarrow> nat" where
  "toInt P x dflt =
     (case to_number P x of
        Fin n \<Rightarrow> if 0 \<le> n then nat \<lfloor>n\<rfloor> else dflt
      | NaN \<Rightarrow> dflt
      | PosInf \<Rightarrow> dflt
      | NegInf \<Rightarrow> dflt)"

definition statusPriorityFromStatusText :: "platform \<Rightarrow> jsval \<Rightarrow> nat" where
  "statusPriorityFromStatusText P statusText =
     (let t = toLowerCase (to_string P (or_else statusText (JStr '''')))
      in if str_includes t ''signed'' \<or> str_includes t ''chaptered'' \<or> str_includes t ''enacted''
         then 10
         else if str_includes t ''passed'' \<or> str_includes t ''adopted''
         then 8
         else if str_includes t ''on floor'' \<or> str_includes t ''third reading''
              \<or> str_includes t ''second reading''
         then 7
         else if str_includes t ''committee'' \<or> str_includes t ''hearing''
              \<or> str_includes t ''referred''
         then 5
         else 3)"

text \<open>An entry of the upstream master list, with the fields the handler reads.\<close>

record raw_bill =
  rb_number :: jsval
  rb_bill_number :: jsval
  rb_bill :: jsval
  rb_title :: jsval
  rb_description :: jsval
  rb_status :: jsval
  rb_status_text :: jsval
  rb_status_detail :: jsval
  rb_url :: jsval
  rb_last_action_date :: jsval
  rb_last_action :: jsval
  rb_introduced_date :: jsval
  rb_bill_id :: jsval
  rb_id :: jsval

record state_bill =
  sb_id :: string
  sb_number :: jsval
  sb_title :: jsval
  sb_howItAffectsYou :: jsval
  sb_date :: jsval
  sb_status :: jsval
  sb_statusDisplay :: jsval
  sb_statusPriority :: nat
  sb_url :: jsval
  sb_legiscan_url :: jsval
  sb_state :: jsval

text \<open>The function mapped over the page (\<open>page.map((b) => ...)\<close>).\<close>

definition normalizeBill :: "platform \<Rightarrow> jsval \<Rightarrow> raw_bill \<Rightarrow> state_bill" where
  "normalizeBill P stateAbbr b =
     (let number = or_else (or_else (or_else (rb_number b) (rb_bill_number b)) (rb_bill b)) (JStr '''');
          title = or_else (or_else (rb_title b) (rb_description b)) (JStr '''');
          statusText =
            or_else (or_else (or_else (rb_status b) (rb_status_text b)) (rb_status_detail b)) (JStr '''');
          statusPriority = statusPriorityFromStatusText P statusText;
          url = or_else (rb_url b) (JStr '''');
          date =
            or_else (or_else (or_else (rb_last_action_date b) (rb_last_action b)) (rb_introduced_date b))
              (JStr '''')
      in \<lparr>sb_id = to_string P (or_else (or_else (or_else (rb_bill_id b) (rb_id b)) number) url),
          sb_number = number,
          sb_title = title,
          sb_howItAffectsYou = title,
          sb_date = date,
          sb_status = statusText,
          sb_statusDisplay = or_else statusText (JStr ''In progress''),
          sb_statusPriority = statusPriority,
          sb_url = url,
          sb_legiscan_url = url,
          sb_state = stateAbbr\<rparr>)"

record pagination =
  pg_limit :: nat
  pg_offset :: nat
  pg_returned :: nat
  pg_total_estimate :: nat

text \<open>The response body is modelled by the object that \<open>JSON.stringify\<close> receives.\<close>

datatype state_bills_body =
    ErrorBody string
  | BillsBody "state_bill list" pagination string

text \<open>What a handler returns: the status code and the body (the headers are constant).\<close>

record 'b response =
  statusCode :: nat
  body :: 'b

text \<open>
  The request is its three query parameters (\<open>JUndefined\<close> when absent). The environment
  is the API key and the upstream service: \<open>callLegiScan("getMasterList", {state})\<close> either
  throws (\<open>Inl\<close>, with the text \<open>String(err)\<close> of the error) or returns the entries of
  \<open>ml.masterlist\<close> in the order \<open>Object.entries\<close> lists them, each value a bill object,
  or \<open>None\<close> for a value that is falsy or not an object.
\<close>

record state_bills_query =
  q_state :: jsval
  q_limit :: jsval
  q_offset :: jsval

text \<open>
  \<open>billsRaw\<close>: the values of the entries whose key is not \<open>session\<close> and whose value is an
  object, in the order of the entries.
\<close>

definition billsRaw :: "(string \<times> raw_bill option) list \<Rightarrow> raw_bill list" where
  "billsRaw masterlist =
     concat (map (\<lambda>(k, v). case v of
                               None \<Rightarrow> []
                             | Some b \<Rightarrow> if k \<noteq> ''session'' then [b] else [])
                 masterlist)"

definition state_bills_handler ::
  "platform \<Rightarrow> jsval \<Rightarrow> (string \<Rightarrow> string + (string \<times> raw_bill option) list)
     \<Rightarrow> state_bills_query \<Rightarrow> state_bills_body response" where
  "state_bills_handler P apiKey callLegiScan qs =
     (if \<not> truthy apiKey
      then \<lparr>statusCode = 500, body = ErrorBody ''Missing LEGISCAN_API_KEY env var in Netlify.''\<rparr>
      else let stateAbbr = normalizeState P (q_state qs)
           in if \<not> truthy stateAbbr
              then \<lparr>statusCode = 400,
                    body = ErrorBody ''Missing/invalid state. Use 'AZ' or 'Arizona'.''\<rparr>
              else let limit = min (toInt P (q_limit qs) 50) 200;
                       offset = toInt P (q_offset qs) 0
                   in case callLegiScan (to_string P stateAbbr) of
                        Inl err \<Rightarrow> \<lparr>statusCode = 500, body = ErrorBody err\<rparr>
                      | Inr masterlist \<Rightarrow>
                          (let page = take limit (drop offset (billsRaw masterlist));
                               bills = map (normalizeBill P stateAbbr) page
                           in \<lparr>statusCode = 200,
                               body = BillsBody bills
                                        \<lparr>pg_limit = limit, pg_offset = offset,
                                         pg_returned = length bills,
                                         pg_total_estimate = length (billsRaw masterlist)\<rparr>
                                        ''legiscan''\<rparr>))"

text \<open>
  The page size and the offset as the claim words them: \<open>min(floor(n), 200)\<close>, and
  \<open>floor(n)\<close>, when the parameter converts to a finite Number \<open>n\<close> at least 0; 50, and 0,
  otherwise.
\<close>

definition effective_limit :: "platform \<Rightarrow> jsval \<Rightarrow> nat" where
  "effective_limit P limit_param =
     (case to_number P limit_param of
        Fin n \<Rightarrow> if 0 \<le> n then min (nat \<lfloor>n\<rfloor>) 200 else 50
      | NaN \<Rightarrow> 50
      | PosInf \<Rightarrow> 50
      | NegInf \<Rightarrow> 50)"

definition effective_offset :: "platform \<Rightarrow> jsval \<Rightarrow> nat" where
  "effective_offset P offset_param =
     (case to_number P offset_param of
        Fin n \<Rightarrow> if 0 \<le> n then nat \<lfloor>n\<rfloor> else 0
      | NaN \<Rightarrow> 0
      | PosInf \<Rightarrow> 0
      | NegInf \<Rightarrow> 0)"

text \<open>
  The claim's reading of the state parameter, in its own words: it resolves when, letter
  case aside, it is the full name or the two-letter code of one of the 50 states or of the
  District of Columbia.
\<close>

definition resolves_to_a_state :: "string \<Rightarrow> bool" where
  "resolves_to_a_state s =
     (toLowerCase (trim s) \<in> set (map fst STATE_NAME_TO_ABBR)
      \<or> toLowerCase (trim s) \<in> set (map (\<lambda>(name, code). toLowerCase code) STATE_NAME_TO_ABBR))"


text \<open>
  Two upstream services for the examples: one returns a master list of two bills and the
  \<open>session\<close> entry, whatever the state; the other fails every call.
\<close>

definition bill_fields :: "string \<Rightarrow> string \<Rightarrow> raw_bill" where
  "bill_fields num status =
     \<lparr>rb_number = JStr num, rb_bill_number = JUndefined, rb_bill = JUndefined,
      rb_title = JUndefined, rb_description = JUndefined, rb_status = JStr status,
      rb_status_text = JUndefined, rb_status_detail = JUndefined, rb_url = JUndefined,
      rb_last_action_date = JUndefined, rb_last_action = JUndefined,
      rb_introduced_date = JUndefined, rb_bill_id = JUndefined, rb_id = JUndefined\<rparr>"

definition two_bills :: "string \<Rightarrow> string + (string \<times> raw_bill option) list" where
  "two_bills st =
     Inr [(''0'', Some (bill_fields ''HB 1'' ''Passed House'')),
          (''1'', Some (bill_fields ''SB 2'' ''Referred to committee'')),
          (''session'', Some (bill_fields '''' ''''))]"

definition legiscan_fails :: "string \<Rightarrow> string + (string \<times> raw_bill option) list" where
  "legiscan_fails st = Inl ''Error: LegiScan getMasterList failed: Unknown state''"


section \<open>city-council.js\<close>

record city_info =
  ci_client :: string
  ci_state :: string
  ci_population :: nat
  ci_verified :: bool
  ci_verifiedDate :: string

definition CITY_DATABASE :: "(string \<times> city_info) list" where
  "CITY_DATABASE =
     [(''Phoenix, AZ'', \<lparr>ci_client = ''phoenix'', ci_state = ''AZ'', ci_population = 1680992,
                          ci_verified = True, ci_verifiedDate = ''2026-02-23''\<rparr>),
      (''Mesa, AZ'', \<lparr>ci_client = ''mesa'', ci_state = ''AZ'', ci_population = 504258,
                       ci_verified = True, ci_verifiedDate = ''2026-02-23''\<rparr>),
      (''Apache Junction, AZ'', \<lparr>ci_client = ''apachejunction'', ci_state = ''AZ'',
                                  ci_population = 44632, ci_verified = True,
                                  ci_verifiedDate = ''2026-02-23''\<rparr>),
      (''Goodyear, AZ'', \<lparr>ci_client = ''goodyear'', ci_state = ''AZ'', ci_population = 101399,
                           ci_verified = True, ci_verifiedDate = ''2026-02-27''\<rparr>),
      (''Lake Havasu City, AZ'', \<lparr>ci_client = ''lakehavasucity'', ci_state = ''AZ'',
                                   ci_population = 57761, ci_verified = True,
                                   ci_verifiedDate = ''2026-02-27''\<rparr>),
      (''Maricopa, AZ'', \<lparr>ci_client = ''maricopa'', ci_state = ''AZ'', ci_population = 58722,
                           ci_verified = True, ci_verifiedDate = ''2026-02-27''\<rparr>),
      (''Yuma, AZ'', \<lparr>ci_client = ''yuma-az'', ci_state = ''AZ'', ci_population = 100000,
                       ci_verified = True, ci_verifiedDate = ''2026-02-27''\<rparr>)]"

record city_entry =
  ce_name :: string
  ce_state :: string
  ce_population :: nat
  ce_verifiedDate :: string
  ce_portalUrl :: string

text \<open>The list of \<open>type=cities\<close>: the verified cities, largest population first.\<close>

definition verified_cities :: "city_entry list" where
  "verified_cities =
     sort_key (\<lambda>c. - int (ce_population c))
       (map (\<lambda>(name, info).
               \<lparr>ce_name = name, ce_state = ci_state info, ce_population = ci_population info,
                ce_verifiedDate = ci_verifiedDate info,
                ce_portalUrl = ''https://'' @ ci_client info @ ''.legistar.com''\<rparr>)
            (filter (\<lambda>(name, info). ci_verified info) CITY_DATABASE))"

text \<open>
  The records of the upstream service, with the fields the handler reads. Identifiers and
  flags are integers and names are strings or null (\<open>None\<close>), as the service documents
  them. An office record's end date is modelled by what \<open>new Date(...)\<close> makes of it:
  \<open>NoEndDate\<close> for a falsy field (null, missing or empty), \<open>EndDate t\<close> for a date with the
  time value \<open>t\<close> in milliseconds, \<open>InvalidEndDate\<close> for text that is no date (its time
  value is NaN, and every comparison with it is false).
\<close>

record person =
  PersonId :: int
  PersonActiveFlag :: int
  PersonFullName :: "string option"
  PersonFirstName :: jsval
  PersonLastName :: jsval
  PersonEmail :: jsval
  PersonPhone :: jsval
  PersonWWW :: jsval
  PersonAddress1 :: "string option"
  PersonCity1 :: "string option"
  PersonState1 :: "string option"
  PersonZip1 :: "string option"

record matter =
  MatterFile :: jsval
  MatterName :: jsval

record council_event =
  EventBodyName :: jsval
  EventDate :: jsval

record council_body =
  BodyId :: int
  BodyName :: "string option"
  BodyActiveFlag :: int

datatype end_date = NoEndDate | EndDate int | InvalidEndDate

record office_record =
  OfficeRecordPersonId :: int
  OfficeRecordBodyId :: int
  OfficeRecordEndDate :: end_date
  OfficeRecordTitle :: jsval
  OfficeRecordBodyName :: jsval
  OfficeRecordStartDate :: jsval


subsection \<open>The verification report\<close>

record check_result =
  ck_pass :: bool
  ck_count :: nat
  ck_sample :: "jsval list"
  ck_error :: "string option"

record report =
  rp_client :: string
  rp_portal :: string
  rp_persons :: check_result
  rp_legislation :: check_result
  rp_events :: check_result
  rp_overallPass :: bool
  rp_timestamp :: string

text \<open>
  \<open>verifyCity\<close>: each of the three probes is the outcome of its \<open>try\<close> block, \<open>Inl\<close> with
  the message of the error thrown there (the fetch failed, the status was not OK, the
  payload was no JSON array) or \<open>Inr\<close> with the records fetched. \<open>timestamp\<close> is the clock
  reading \<open>new Date().toISOString()\<close>.
\<close>

definition failed_check :: "string \<Rightarrow> check_result" where
  "failed_check message = \<lparr>ck_pass = False, ck_count = 0, ck_sample = [], ck_error = Some message\<rparr>"

definition verifyCity ::
  "platform \<Rightarrow> string \<Rightarrow> string \<Rightarrow> string + person list \<Rightarrow> string + matter list
     \<Rightarrow> string + council_event list \<Rightarrow> report" where
  "verifyCity P client timestamp persons_probe matters_probe events_probe =
     (let persons_check =
            (case persons_probe of
               Inl message \<Rightarrow> failed_check message
             | Inr persons \<Rightarrow>
                 (let realPersons =
                        filter (\<lambda>p. PersonActiveFlag p = 1
                                     \<and> (case PersonFullName p of
                                           None \<Rightarrow> False
                                         | Some name \<Rightarrow> name \<noteq> []
                                             \<and> \<not> str_includes name ''System''
                                             \<and> \<not> str_includes name ''View Only''))
                               persons
                  in \<lparr>ck_pass = (0 < length realPersons), ck_count = length realPersons,
                      ck_sample = map (\<lambda>p. case PersonFullName p of
                                               None \<Rightarrow> JNull
                                             | Some name \<Rightarrow> JStr name)
                                      (take 3 realPersons),
                      ck_error = None\<rparr>));
          legislation_check =
            (case matters_probe of
               Inl message \<Rightarrow> failed_check message
             | Inr matters \<Rightarrow>
                 \<lparr>ck_pass = (0 < length matters), ck_count = length matters,
                  ck_sample = map (\<lambda>m. or_else (or_else (MatterFile m) (MatterName m))
                                          (JStr ''Untitled''))
                                  (take 3 matters),
                  ck_error = None\<rparr>);
          events_check =
            (case events_probe of
               Inl message \<Rightarrow> failed_check message
             | Inr events \<Rightarrow>
                 \<lparr>ck_pass = (0 < length events), ck_count = length events,
                  ck_sample = map (\<lambda>e. JStr (to_string P (EventBodyName e) @ '' - ''
                                               @ to_string P (EventDate e)))
                                  (take 3 events),
                  ck_error = None\<rparr>)
      in \<lparr>rp_client = client,
          rp_portal = ''https://'' @ client @ ''.legistar.com'',
          rp_persons = persons_check,
          rp_legislation = legislation_check,
          rp_events = events_check,
          rp_overallPass = (ck_pass persons_check \<or> ck_pass legislation_check),
          rp_timestamp = timestamp\<rparr>)"

text \<open>
  The bodies the handler sends before it looks at the city. The three recommendation
  texts are constants of the source and are named here.
\<close>

datatype recommendation = SafeToAdd | DoNotAddYet | CouldNotConnect

datatype verify_body =
    EmptyBody
  | CitiesBody "city_entry list" nat
  | ClientRequired
  | VerificationReport report recommendation
  | VerificationFailed string bool string recommendation

text \<open>
  The \<open>try\<close>/\<open>catch\<close> around \<open>verifyCity\<close>: a report is sent with status 200, and so is the
  message of anything thrown (\<open>Inl\<close>), as the body
  \<open>{client, overallPass: false, error, recommendation}\<close>.
\<close>

definition verify_response :: "string \<Rightarrow> string + report \<Rightarrow> verify_body response" where
  "verify_response testClient outcome =
     (case outcome of
        Inr report \<Rightarrow>
          \<lparr>statusCode = 200,
           body = VerificationReport report
                    (if rp_overallPass report then SafeToAdd else DoNotAddYet)\<rparr>
      | Inl message \<Rightarrow>
          \<lparr>statusCode = 200,
           body = VerificationFailed testClient False message CouldNotConnect\<rparr>)"

text \<open>
  The handler from its first statement through the \<open>verify\<close> branch. The request is its
  method and the query parameters read so far; \<open>None\<close> is returned when control goes on to
  the validation of the city (the branches for a city follow, each on its own).
\<close>

record council_request =
  rq_httpMethod :: string
  rq_type :: jsval
  rq_client :: jsval

definition city_council_handler ::
  "platform \<Rightarrow> string \<Rightarrow> string + person list \<Rightarrow> string + matter list
     \<Rightarrow> string + council_event list \<Rightarrow> council_request \<Rightarrow> verify_body response option" where
  "city_council_handler P timestamp persons_probe matters_probe events_probe event =
     (if rq_httpMethod event = ''OPTIONS''
      then Some \<lparr>statusCode = 200, body = EmptyBody\<rparr>
      else if rq_type event = JStr ''cities''
      then Some \<lparr>statusCode = 200, body = CitiesBody verified_cities (length verified_cities)\<rparr>
      else if rq_type event = JStr ''verify''
      then (let testClient = rq_client event
            in if \<not> truthy testClient
               then Some \<lparr>statusCode = 400, body = ClientRequired\<rparr>
               else Some (verify_response (to_string P testClient)
                            (Inr (verifyCity P (to_string P testClient) timestamp
                                    persons_probe matters_probe events_probe))))
      else None)"


subsection \<open>The members of the council\<close>

definition primaryKeywords :: "string list" where
  "primaryKeywords =
     [''city council'', ''town council'', ''mayor and council'', ''mayor & council'',
      ''board of supervisors'', ''common council'']"

definition broadKeywords :: "string list" where
  "broadKeywords = [''council'', ''mayor'', ''aldermen'']"

definition excludeKeywords :: "string list" where
  "excludeKeywords =
     [''advisory'', ''committee'', ''commission'', ''subcommittee'', ''task force'', ''authority'',
      ''board of adjustment'', ''planning'', ''zoning'']"

definition excludeNames :: "string list" where
  "excludeNames =
     [''system'', ''monitor'', ''view only'', ''test'', ''admin'', ''clerk'', ''secretary'',
      ''attorney'', ''manager'', ''director'', ''coordinator'', ''analyst'', ''assistant'', ''staff'']"

text \<open>\<open>(name || '').toLowerCase()\<close> for a name that is a string or null.\<close>

definition lower_name :: "string option \<Rightarrow> string" where
  "lower_name name = (case name of None \<Rightarrow> [] | Some s \<Rightarrow> toLowerCase s)"

definition councilBodies :: "council_body list \<Rightarrow> council_body list" where
  "councilBodies bodies =
     (let primaryBodies =
            filter (\<lambda>b. list_ex (str_includes (lower_name (BodyName b))) primaryKeywords
                         \<and> BodyActiveFlag b = 1)
                   bodies
      in if 0 < length primaryBodies then primaryBodies
         else filter (\<lambda>b. list_ex (str_includes (lower_name (BodyName b))) broadKeywords
                          \<and> \<not> list_ex (str_includes (lower_name (BodyName b))) excludeKeywords
                          \<and> BodyActiveFlag b = 1)
                     bodies)"

text \<open>\<open>!or.OfficeRecordEndDate || new Date(or.OfficeRecordEndDate) > now\<close>\<close>

fun isActive :: "int \<Rightarrow> end_date \<Rightarrow> bool" where
  "isActive now NoEndDate = True"
| "isActive now (EndDate t) = (now < t)"
| "isActive now InvalidEndDate = False"

definition activeCouncilOffices :: "int \<Rightarrow> int list \<Rightarrow> office_record list \<Rightarrow> office_record list" where
  "activeCouncilOffices now councilBodyIds officeRecords =
     filter (\<lambda>r. (length councilBodyIds = 0 \<or> OfficeRecordBodyId r \<in> set councilBodyIds)
                  \<and> isActive now (OfficeRecordEndDate r))
            officeRecords"

text \<open>\<open>[...new Set(xs)]\<close>: the distinct elements, in the order of their first occurrence.\<close>

definition unique :: "'a list \<Rightarrow> 'a list" where
  "unique xs = rev (remdups (rev xs))"

text \<open>\<open>xs.join(sep)\<close> on strings\<close>

fun join :: "string \<Rightarrow> string list \<Rightarrow> string" where
  "join sep [] = []"
| "join sep [x] = x"
| "join sep (x # y # ys) = x @ sep @ join sep (y # ys)"

record member =
  m_id :: int
  m_firstName :: jsval
  m_lastName :: jsval
  m_fullName :: "string option"
  m_email :: jsval
  m_phone :: jsval
  m_website :: jsval
  m_address :: "string option"
  m_title :: jsval
  m_bodyName :: jsval
  m_startDate :: jsval
  m_endDate :: end_date
  m_active :: bool

definition enrich :: "office_record list \<Rightarrow> person \<Rightarrow> member" where
  "enrich offices p =
     (let own = filter (\<lambda>r. OfficeRecordPersonId r = PersonId p) offices;
          address = join '', ''
                      (concat (map (\<lambda>part. case part of
                                              None \<Rightarrow> []
                                            | Some s \<Rightarrow> if s \<noteq> [] then [s] else [])
                                   [PersonAddress1 p, PersonCity1 p, PersonState1 p, PersonZip1 p]))
      in \<lparr>m_id = PersonId p,
          m_firstName = PersonFirstName p,
          m_lastName = PersonLastName p,
          m_fullName = PersonFullName p,
          m_email = or_else (PersonEmail p) JNull,
          m_phone = or_else (PersonPhone p) JNull,
          m_website = or_else (PersonWWW p) JNull,
          m_address = (if address \<noteq> [] then Some address else None),
          m_title = (case own of [] \<Rightarrow> JNull | r # rs \<Rightarrow> OfficeRecordTitle r),
          m_bodyName = (case own of [] \<Rightarrow> JNull | r # rs \<Rightarrow> OfficeRecordBodyName r),
          m_startDate = (case own of [] \<Rightarrow> JNull | r # rs \<Rightarrow> OfficeRecordStartDate r),
          m_endDate = (case own of [] \<Rightarrow> NoEndDate | r # rs \<Rightarrow> OfficeRecordEndDate r),
          m_active = True\<rparr>)"

record members_body =
  mb_members :: "member list"
  mb_totalMembers :: nat
  mb_councilBodiesFound :: nat

text \<open>
  The branch \<open>type=members\<close> for a verified city. Each fetch is \<open>Inl\<close> when it throws
  (every one is caught and leaves the empty list) or \<open>Inr\<close> with its records; the three
  person queries are tried in turn while the list is empty. \<open>now\<close> is the time value of
  \<open>new Date()\<close>.
\<close>

definition fetched :: "string + 'a list \<Rightarrow> 'a list" where
  "fetched r = (case r of Inl message \<Rightarrow> [] | Inr xs \<Rightarrow> xs)"

definition council_members ::
  "int \<Rightarrow> string + council_body list \<Rightarrow> string + office_record list
     \<Rightarrow> string + person list \<Rightarrow> string + person list \<Rightarrow> string + person list
     \<Rightarrow> members_body response" where
  "council_members now bodies_fetch offices_fetch persons_active persons_ordered persons_plain =
     (let bodies = fetched bodies_fetch;
          councilBodyIds = map BodyId (councilBodies bodies);
          officeRecords = fetched offices_fetch;
          offices = activeCouncilOffices now councilBodyIds officeRecords;
          councilPersonIds = unique (map OfficeRecordPersonId offices);
          persons1 = fetched persons_active;
          persons2 = (if length persons1 = 0 then fetched persons_ordered else persons1);
          persons = (if length persons2 = 0 then fetched persons_plain else persons2);
          councilMembers =
            (if 0 < length councilPersonIds
             then filter (\<lambda>p. PersonId p \<in> set councilPersonIds) persons
             else filter (\<lambda>p. \<not> list_ex (str_includes (lower_name (PersonFullName p))) excludeNames)
                    (filter (\<lambda>p. PersonActiveFlag p = 1) persons));
          enrichedMembers = map (enrich offices) councilMembers
      in \<lparr>statusCode = 200,
          body = \<lparr>mb_members = enrichedMembers,
                  mb_totalMembers = length enrichedMembers,
                  mb_councilBodiesFound = length councilBodyIds\<rparr>\<rparr>)"


subsection \<open>The vote summary\<close>

text \<open>
  An entry of \<open>voteHistory\<close>; \<open>valueName\<close> is the free-text label, null (\<open>None\<close>) when the
  service gives none. The summary holds the five counts; the attendance rate, a rounded
  floating-point quotient of two of them, is not modelled.
\<close>

record vote_entry =
  ve_id :: jsval
  ve_personName :: jsval
  ve_value :: jsval
  ve_valueName :: "string option"
  ve_result :: jsval
  ve_eventItemId :: jsval
  ve_lastModified :: jsval

definition counts_yes :: "vote_entry \<Rightarrow> bool" where
  "counts_yes v =
     (case ve_valueName v of
        None \<Rightarrow> False
      | Some name \<Rightarrow> name \<noteq> []
          \<and> (str_includes (toLowerCase name) ''aye'' \<or> str_includes (toLowerCase name) ''yes''
               \<or> str_includes (toLowerCase name) ''affirmative''))"

definition counts_no :: "vote_entry \<Rightarrow> bool" where
  "counts_no v =
     (case ve_valueName v of
        None \<Rightarrow> False
      | Some name \<Rightarrow> name \<noteq> []
          \<and> (str_includes (toLowerCase name) ''nay'' \<or> str_includes (toLowerCase name) ''no''))"

definition counts_absent :: "vote_entry \<Rightarrow> bool" where
  "counts_absent v =
     (case ve_valueName v of
        None \<Rightarrow> False
      | Some name \<Rightarrow> name \<noteq> []
          \<and> (str_includes (toLowerCase name) ''absent'' \<or> str_includes (toLowerCase name) ''excused''))"

definition counts_abstain :: "vote_entry \<Rightarrow> bool" where
  "counts_abstain v =
     (case ve_valueName v of
        None \<Rightarrow> False
      | Some name \<Rightarrow> name \<noteq> []
          \<and> (str_includes (toLowerCase name) ''abstain'' \<or> str_includes (toLowerCase name) ''present''))"

record vote_summary =
  vs_total :: nat
  vs_yes :: nat
  vs_no :: nat
  vs_absent :: nat
  vs_abstain :: nat

definition summary :: "vote_entry list \<Rightarrow> vote_summary" where
  "summary voteHistory =
     \<lparr>vs_total = length voteHistory,
      vs_yes = length (filter counts_yes voteHistory),
      vs_no = length (filter counts_no voteHistory),
      vs_absent = length (filter counts_absent voteHistory),
      vs_abstain = length (filter counts_abstain voteHistory)\<rparr>"

text \<open>How many of the four keyword buckets count a record.\<close>

definition buckets :: "vote_entry \<Rightarrow> nat" where
  "buckets v =
     (if counts_yes v then 1 else 0) + (if counts_no v then 1 else 0)
     + (if counts_absent v then 1 else 0) + (if counts_abstain v then 1 else 0)"

text \<open>A vote with the given label, for the examples.\<close>

definition vote_labelled :: "string \<Rightarrow> vote_entry" where
  "vote_labelled name =
     \<lparr>ve_id = JUndefined, ve_personName = JUndefined, ve_value = JUndefined,
      ve_valueName = Some name, ve_result = JUndefined, ve_eventItemId = JUndefined,
      ve_lastModified = JUndefined\<rparr>"


text \<open>
  The example of the specification: seven votes \<open>Aye\<close>, two \<open>Absent\<close> and one \<open>Nay\<close>.
\<close>

definition ten_votes :: "vote_entry list" where
  "ten_votes = replicate 7 (vote_labelled ''Aye'') @ replicate 2 (vote_labelled ''Absent'')
                 @ [vote_labelled ''Nay'']"

text \<open>A person, an office record and the body \<open>City Council\<close>, for the roster example.\<close>

definition person_named :: "int \<Rightarrow> string \<Rightarrow> person" where
  "person_named pid name =
     \<lparr>PersonId = pid, PersonActiveFlag = 1, PersonFullName = Some name,
      PersonFirstName = JUndefined, PersonLastName = JUndefined, PersonEmail = JUndefined,
      PersonPhone = JUndefined, PersonWWW = JUndefined, PersonAddress1 = None,
      PersonCity1 = None, PersonState1 = None, PersonZip1 = None\<rparr>"

definition office_of :: "int \<Rightarrow> int \<Rightarrow> end_date \<Rightarrow> office_record" where
  "office_of pid bid ended =
     \<lparr>OfficeRecordPersonId = pid, OfficeRecordBodyId = bid, OfficeRecordEndDate = ended,
      OfficeRecordTitle = JStr ''Councilmember'', OfficeRecordBodyName = JStr ''City Council'',
      OfficeRecordStartDate = JStr ''2021-01-04T00:00:00''\<rparr>"

definition city_council_body :: council_body where
  "city_council_body = \<lparr>BodyId = 1, BodyName = Some ''City Council'', BodyActiveFlag = 1\<rparr>"


section \<open>Properties of the string and number helpers\<close>

lemma str_includes_sublist: "str_includes t k = sublist k t"
  by (induction t) (auto simp: sublist_Cons_right)

lemma js_rem_of_nat:
  assumes "0 < m"
  shows "js_rem (Fin (of_nat n)) (of_nat m) = Fin (of_nat (n mod m))"
proof -
  have "\<not> (of_nat n :: rat) / of_nat m < 0"
    by (simp add: not_less)
  then have t: "trunc (of_nat n / of_nat m) = int (n div m)"
    unfolding trunc_def by (simp add: floor_divide_of_nat_eq)
  have "(of_nat n :: rat) = of_nat (m * (n div m) + n mod m)"
    by simp
  also have "\<dots> = of_nat m * of_nat (n div m) + of_nat (n mod m)"
    by (simp only: of_nat_add of_nat_mult)
  finally have "(of_nat n :: rat) - of_nat m * of_nat (n div m) = of_nat (n mod m)"
    by simp
  with t show ?thesis by simp
qed

lemma num_to_string_nat:
  assumes "n \<le> 9007199254740991"
  shows "num_to_string P (Fin (of_nat n)) = decimal n"
proof -
  from assms have "(of_nat n :: rat) \<le> of_nat 9007199254740991"
    by (simp only: of_nat_le_iff)
  then have "is_safe_integer (of_nat n)"
    by (simp add: is_safe_integer_def)
  then show ?thesis
    by (simp add: num_to_string_def)
qed

lemma ordinalSuffix_of_nat:
  "ordinalSuffix P (JNum (Fin (of_nat n))) =
     num_to_string P (Fin (of_nat n)) @
       (if n mod 100 \<in> {11, 12, 13} then ''th''
        else if n mod 10 = 1 then ''st''
        else if n mod 10 = 2 then ''nd''
        else if n mod 10 = 3 then ''rd''
        else ''th'')"
proof -
  have m100: "js_rem (Fin (of_nat n)) 100 = Fin (of_nat (n mod 100))"
    using js_rem_of_nat [of 100 n] by simp
  have m10: "js_rem (Fin (of_nat n)) 10 = Fin (of_nat (n mod 10))"
    using js_rem_of_nat [of 10 n] by simp
  have teen: "(js_ge (Fin (of_nat (n mod 100))) 11 \<and> js_le (Fin (of_nat (n mod 100))) 13)
      = (n mod 100 \<in> {11, 12, 13})"
  proof -
    have "((11::rat) \<le> of_nat (n mod 100)) = (11 \<le> n mod 100)"
      using of_nat_le_iff [of 11 "n mod 100", where ?'a = rat] by simp
    moreover have "((of_nat (n mod 100) :: rat) \<le> 13) = (n mod 100 \<le> 13)"
      using of_nat_le_iff [of "n mod 100" 13, where ?'a = rat] by simp
    ultimately show ?thesis by auto
  qed
  have e: "\<And>k j. (Fin (of_nat k) = Fin (of_nat j)) = (k = j)" by simp
  have e1: "(Fin (of_nat (n mod 10)) = Fin 1) = (n mod 10 = 1)" using e [of _ 1] by simp
  have e2: "(Fin (of_nat (n mod 10)) = Fin 2) = (n mod 10 = 2)" using e [of _ 2] by simp
  have e3: "(Fin (of_nat (n mod 10)) = Fin 3) = (n mod 10 = 3)" using e [of _ 3] by simp
  show ?thesis
    unfolding ordinalSuffix_def Let_def to_number.simps m100 m10 teen e1 e2 e3
    by simp
qed

lemma ordinalSuffix_small:
  assumes "n \<le> 9007199254740991"
  shows "ordinalSuffix P (JNum (Fin (of_nat n))) =
     decimal n @
       (if n mod 100 \<in> {11, 12, 13} then ''th''
        else if n mod 10 = 1 then ''st''
        else if n mod 10 = 2 then ''nd''
        else if n mod 10 = 3 then ''rd''
        else ''th'')"
  using ordinalSuffix_of_nat [of P n] num_to_string_nat [OF assms, of P] by simp

lemma decimal_119: "decimal 119 = ''119''"
  by code_simp

lemma decimal_101: "decimal 101 = ''101''"
  by code_simp

lemma decimal_112: "decimal 112 = ''112''"
  by code_simp

lemma ordinalSuffix_119: "ordinalSuffix P (JNum (Fin 119)) = ''119th''"
  using ordinalSuffix_small [of 119 P] decimal_119 by simp

lemma ordinalSuffix_101: "ordinalSuffix P (JNum (Fin 101)) = ''101st''"
  using ordinalSuffix_small [of 101 P] decimal_101 by simp

lemma ordinalSuffix_112: "ordinalSuffix P (JNum (Fin 112)) = ''112th''"
  using ordinalSuffix_small [of 112 P] decimal_112 by simp


section \<open>The ordinal formatter\<close>

text \<open>
  Claim C8. For every non-negative integer \<open>n\<close>, \<open>ordinalSuffix(n)\<close> is the decimal
  rendering of \<open>n\<close> followed by \<open>th\<close> when \<open>n mod 100\<close> is 11, 12 or 13, and otherwise by
  \<open>st\<close>, \<open>nd\<close>, \<open>rd\<close> or \<open>th\<close> as \<open>n mod 10\<close> is 1, 2, 3 or anything else. The rendering is
  the runtime's \<open>String(n)\<close>, which is the plain decimal numeral for every safe integer.
  In particular \<open>ordinalSuffix(119) = "119th"\<close>, \<open>ordinalSuffix(101) = "101st"\<close> and
  \<open>ordinalSuffix(112) = "112th"\<close>.
\<close>

theorem ordinalSuffix_rule:
  "ordinalSuffix P (JNum (Fin (of_nat n))) =
     num_to_string P (Fin (of_nat n)) @
       (if n mod 100 \<in> {11, 12, 13} then ''th''
        else if n mod 10 = 1 then ''st''
        else if n mod 10 = 2 then ''nd''
        else if n mod 10 = 3 then ''rd''
        else ''th'')
   \<and> (n \<le> 9007199254740991 \<longrightarrow> num_to_string P (Fin (of_nat n)) = decimal n)
   \<and> ordinalSuffix P (JNum (Fin 119)) = ''119th''
   \<and> ordinalSuffix P (JNum (Fin 101)) = ''101st''
   \<and> ordinalSuffix P (JNum (Fin 112)) = ''112th''"
  using ordinalSuffix_of_nat [of P n] num_to_string_nat [of n P]
    ordinalSuffix_119 [of P] ordinalSuffix_101 [of P] ordinalSuffix_112 [of P]
  by blast

lemma decimal_22: "decimal 22 = ''22''"
  by code_simp

theorem ordinalSuffix_rule_witness:
  "(22::nat) \<le> 9007199254740991 \<and> ordinalSuffix plain_platform (JNum (Fin 22)) = ''22nd''"
  using ordinalSuffix_rule [of plain_platform 22] decimal_22 by simp


section \<open>The stage classifier\<close>

lemma deriveBillStage_refines: "deriveBillStage (JStr t) = Inr (spec_stage t)"
  by (simp add: deriveBillStage_def spec_stage_def stage_rules_def rule_matches_def or_else_def)

lemma first_match_default:
  "\<not> list_ex (rule_matches t) rs \<Longrightarrow> first_match rs t = \<lparr>display = ''In Progress'', priority = 3\<rparr>"
  by (induction rs) auto

text \<open>
  Claim C3. For every input string \<open>t\<close>, \<open>deriveBillStage(t)\<close> is the result of the eight
  ordered keyword-group rules, first match wins, on the lower-cased text; when no rule
  matches, and on an empty or missing text, it is \<open>("In Progress", 3)\<close>; and a text that contains
  both \<open>introduced\<close> and \<open>referred to\<close> and no keyword of the six earlier rules is
  \<open>("In Committee", 4)\<close>.
\<close>

theorem deriveBillStage_rules:
  "deriveBillStage (JStr t) = Inr (first_match stage_rules (toLowerCase t))
   \<and> (\<not> list_ex (rule_matches (toLowerCase t)) stage_rules \<longrightarrow>
        deriveBillStage (JStr t) = Inr \<lparr>display = ''In Progress'', priority = 3\<rparr>)
   \<and> deriveBillStage (JStr '''') = Inr \<lparr>display = ''In Progress'', priority = 3\<rparr>
   \<and> deriveBillStage JUndefined = Inr \<lparr>display = ''In Progress'', priority = 3\<rparr>
   \<and> (str_includes (toLowerCase t) ''introduced'' \<and> str_includes (toLowerCase t) ''referred to''
        \<and> \<not> list_ex (rule_matches (toLowerCase t)) (take 6 stage_rules) \<longrightarrow>
        deriveBillStage (JStr t) = Inr \<lparr>display = ''In Committee'', priority = 4\<rparr>)"
proof -
  have r: "deriveBillStage (JStr t) = Inr (first_match stage_rules (toLowerCase t))"
    using deriveBillStage_refines [of t] by (simp add: spec_stage_def)
  have d: "\<not> list_ex (rule_matches (toLowerCase t)) stage_rules \<longrightarrow>
        deriveBillStage (JStr t) = Inr \<lparr>display = ''In Progress'', priority = 3\<rparr>"
    using r first_match_default [of "toLowerCase t" stage_rules] by simp
  have e: "deriveBillStage (JStr '''') = Inr \<lparr>display = ''In Progress'', priority = 3\<rparr>"
    by (simp add: deriveBillStage_def or_else_def toLowerCase_def)
  have u: "deriveBillStage JUndefined = Inr \<lparr>display = ''In Progress'', priority = 3\<rparr>"
    by (simp add: deriveBillStage_def or_else_def toLowerCase_def)
  have c: "str_includes (toLowerCase t) ''introduced'' \<and> str_includes (toLowerCase t) ''referred to''
        \<and> \<not> list_ex (rule_matches (toLowerCase t)) (take 6 stage_rules) \<longrightarrow>
        deriveBillStage (JStr t) = Inr \<lparr>display = ''In Committee'', priority = 4\<rparr>"
    unfolding r by (simp add: stage_rules_def rule_matches_def)
  from r d e u c show ?thesis by blast
qed

lemma lower_referred:
  "toLowerCase ''Introduced in House; Referred to the Committee on Rules''
     = ''introduced in house; referred to the committee on rules''"
  by code_simp

lemma referred_matches:
  "str_includes ''introduced in house; referred to the committee on rules'' ''introduced''
   \<and> str_includes ''introduced in house; referred to the committee on rules'' ''referred to''
   \<and> \<not> list_ex (rule_matches ''introduced in house; referred to the committee on rules'')
           (take 6 stage_rules)"
  by code_simp

lemma lower_held: "toLowerCase ''Held at the desk'' = ''held at the desk''"
  by code_simp

lemma held_matches: "\<not> list_ex (rule_matches ''held at the desk'') stage_rules"
  by code_simp

theorem deriveBillStage_rules_witness:
  "deriveBillStage (JStr ''Introduced in House; Referred to the Committee on Rules'')
     = Inr \<lparr>display = ''In Committee'', priority = 4\<rparr>
   \<and> deriveBillStage (JStr ''Held at the desk'') = Inr \<lparr>display = ''In Progress'', priority = 3\<rparr>"
  using deriveBillStage_rules [of "''Introduced in House; Referred to the Committee on Rules''"]
    deriveBillStage_rules [of "''Held at the desk''"]
  unfolding lower_referred lower_held using referred_matches held_matches by blast


section \<open>The public URL of a bill\<close>

lemma TYPE_MAP_entries:
  "list_all (\<lambda>(k, slug). k \<noteq> [] \<and> slug \<noteq> [] \<and> CHR ''/'' \<notin> set slug \<and> toLowerCase slug = slug)
     TYPE_MAP"
  by code_simp

lemma TYPE_MAP_entry:
  assumes "map_of TYPE_MAP k = Some slug"
  shows "k \<noteq> [] \<and> slug \<noteq> [] \<and> CHR ''/'' \<notin> set slug \<and> toLowerCase slug = slug"
proof -
  from assms have "(k, slug) \<in> set TYPE_MAP"
    by (rule map_of_SomeD)
  with TYPE_MAP_entries show ?thesis
    unfolding list_all_iff by blast
qed

lemma buildPublicUrl_primary:
  assumes "truthy (bill_congress b)"
      and "bill_type b = JStr ty"
      and "map_of TYPE_MAP (toLowerCase ty) = Some slug"
      and "truthy (bill_number b)"
      and "filter is_digit (to_string P (bill_number b)) \<noteq> []"
  shows "buildPublicUrl P b =
           Inr (''https://www.congress.gov/bill/'' @ ordinalSuffix P (bill_congress b)
                @ ''-congress/'' @ slug @ ''/'' @ filter is_digit (to_string P (bill_number b)))"
proof -
  from TYPE_MAP_entry [OF assms(3)] have k: "toLowerCase ty \<noteq> []" and s: "slug \<noteq> []"
    by simp_all
  then have t: "ty \<noteq> []"
    by (auto simp: toLowerCase_def)
  have g: "get_property TYPE_MAP (toLowerCase ty) = JStr slug"
    by (simp add: get_property_def assms(3))
  show ?thesis
    using assms(1,2,4,5) k s t g
    by (simp add: buildPublicUrl_def primary_url_def or_else_def public_url_def Let_def)
qed

lemma buildPublicUrl_example:
  "buildPublicUrl P \<lparr>bill_congress = JNum (Fin 119), bill_type = JStr ''hr'',
      bill_number = JStr ''H.R.187'', bill_url = JUndefined, bill_apiUrl = JUndefined\<rparr>
     = Inr ''https://www.congress.gov/bill/119th-congress/house-bill/187''"
proof -
  define b where "b = \<lparr>bill_congress = JNum (Fin 119), bill_type = JStr ''hr'',
      bill_number = JStr ''H.R.187'', bill_url = JUndefined, bill_apiUrl = JUndefined\<rparr>"
  have c: "truthy (bill_congress b)" and t: "bill_type b = JStr ''hr''" and n: "truthy (bill_number b)"
    by (simp_all add: b_def)
  have m: "map_of TYPE_MAP (toLowerCase ''hr'') = Some ''house-bill''"
    by code_simp
  have d: "filter is_digit (to_string P (bill_number b)) = ''187''"
    by (simp add: b_def is_digit_def)
  have o: "ordinalSuffix P (bill_congress b) = ''119th''"
    by (simp add: b_def ordinalSuffix_119)
  have "buildPublicUrl P b =
           Inr (''https://www.congress.gov/bill/'' @ ordinalSuffix P (bill_congress b)
                @ ''-congress/'' @ ''house-bill'' @ ''/'' @ filter is_digit (to_string P (bill_number b)))"
    using buildPublicUrl_primary [OF c t m n] d by simp
  then show ?thesis
    unfolding d o by (simp add: b_def)
qed

lemma buildPublicUrl_returns:
  "(\<exists>u. buildPublicUrl P b = Inr u) = (\<not> truthy (bill_type b) \<or> (\<exists>s. bill_type b = JStr s))"
  by (cases "bill_type b")
     (auto simp: buildPublicUrl_def or_else_def Let_def split: option.splits)

lemma fallback_generic_slug:
  assumes "\<not> truthy (bill_type b) \<or> (\<exists>s. bill_type b = JStr s)"
      and "primary_url P (or_else (bill_congress b) (JStr ''''))
             (case or_else (bill_type b) (JStr '''') of JStr s \<Rightarrow> toLowerCase s | _ \<Rightarrow> [])
             (or_else (bill_number b) (JStr '''')) = None"
      and "url_bill_parts P (to_string P (or_else (or_else (bill_url b) (bill_apiUrl b)) (JStr '''')))
             = Some (c, t, n)"
      and "get_property TYPE_MAP t = JUndefined"
  shows "buildPublicUrl P b =
           Inr (''https://www.congress.gov/bill/'' @ ordinalSuffix P (JStr c)
                @ ''-congress/'' @ t @ ''-bill/'' @ n)"
  using assms
  by (cases "bill_type b")
     (auto simp: buildPublicUrl_def fallback_url_def or_else_def public_url_def Let_def toLowerCase_def
           split: if_splits)

lemma buildPublicUrl_root:
  assumes "\<not> truthy (bill_congress b) \<or> \<not> truthy (bill_type b) \<or> \<not> truthy (bill_number b)"
      and "\<not> truthy (bill_type b) \<or> (\<exists>s. bill_type b = JStr s)"
      and "url_bill_parts P (to_string P (or_else (or_else (bill_url b) (bill_apiUrl b)) (JStr ''''))) = None"
  shows "buildPublicUrl P b = Inr ''https://www.congress.gov/''"
  using assms
  by (cases "bill_type b")
     (auto simp: buildPublicUrl_def primary_url_def fallback_url_def or_else_def Let_def toLowerCase_def
           split: if_splits)

text \<open>
  Claim C4. With congress, type and number present, the type code in the slug table and a
  digit in the number, \<open>buildPublicUrl\<close> returns the primary URL
  (\<open>buildPublicUrl_primary\<close>, \<open>buildPublicUrl_example\<close>), and with nothing usable it returns the
  host root (\<open>buildPublicUrl_root\<close>). On the fallback path a type code that is no property
  of \<open>TYPE_MAP\<close> at all gets the slug \<open><type>-bill\<close> (\<open>fallback_generic_slug\<close>). The claim
  says so of every unrecognized type code, and that fails: \<open>TYPE_MAP[t]\<close> also finds the
  properties a plain object inherits, so for the type code \<open>constructor\<close> the slug is the text
  of the built-in \<open>Object\<close> function, not \<open>constructor-bill\<close>.
\<close>

theorem buildPublicUrl_inherited_slug:
  "map_of TYPE_MAP ''constructor'' = None
   \<and> get_property TYPE_MAP ''constructor'' = JNative ''Object''
   \<and> buildPublicUrl plain_platform \<lparr>bill_congress = JUndefined, bill_type = JUndefined,
        bill_number = JUndefined,
        bill_url = JStr ''https://api.congress.gov/v3/bill/119/constructor/5'',
        bill_apiUrl = JUndefined\<rparr>
       = Inr ''https://www.congress.gov/bill/119th-congress/function Object() { [native code] }/5''"
  by code_simp

text \<open>
  Claim C7. \<open>buildPublicUrl\<close> returns a URL exactly when the \<open>type\<close> field is missing, falsy
  or a string (\<open>buildPublicUrl_returns\<close>); the claim says it never raises, also on fields that
  are not strings, and that fails: a truthy \<open>type\<close> that is not a string has no
  \<open>toLowerCase\<close> method, and the call is outside the \<open>try\<close> block, so a TypeError escapes.
\<close>

theorem buildPublicUrl_TypeError:
  "buildPublicUrl P \<lparr>bill_congress = JNum (Fin 119), bill_type = JNum (Fin 5),
      bill_number = JStr ''187'', bill_url = JUndefined, bill_apiUrl = JUndefined\<rparr>
     = Inl TypeError"
  by (simp add: buildPublicUrl_def or_else_def)

lemma split_on_no_sep: "d \<notin> set xs \<Longrightarrow> split_on d xs = [xs]"
  by (induction xs) auto

lemma split_on_append: "d \<notin> set xs \<Longrightarrow> split_on d (xs @ d # ys) = xs # split_on d ys"
  by (induction xs) auto

lemma bill_path_parts:
  assumes "CHR ''/'' \<notin> set a" "CHR ''/'' \<notin> set s" "CHR ''/'' \<notin> set n"
      and "a \<noteq> []" "s \<noteq> []" "n \<noteq> []"
  shows "filter (\<lambda>p. p \<noteq> []) (split_on CHR ''/'' (''/bill/'' @ a @ ''/'' @ s @ ''/'' @ n))
           = [''bill'', a, s, n]"
proof -
  have b: "CHR ''/'' \<notin> set ''bill''" by simp
  have "''/bill/'' @ a @ ''/'' @ s @ ''/'' @ n
          = [] @ CHR ''/'' # (''bill'' @ CHR ''/'' # (a @ CHR ''/'' # (s @ CHR ''/'' # n)))"
    by simp
  then have "split_on CHR ''/'' (''/bill/'' @ a @ ''/'' @ s @ ''/'' @ n) = [[], ''bill'', a, s, n]"
    using split_on_append [of "CHR ''/''" "[]"] split_on_append [OF b]
      split_on_append [OF assms(1)] split_on_append [OF assms(2)] split_on_no_sep [OF assms(3)]
    by simp
  with assms(4-6) show ?thesis by simp
qed

lemma decimal_digits: "set (decimal n) \<subseteq> set ''0123456789''"
proof (induction n rule: decimal.induct)
  case (1 n)
  have d: "\<And>k. k < 10 \<Longrightarrow> digit_char k \<in> set ''0123456789''"
    unfolding digit_char_def by (rule nth_mem) simp
  show ?case
  proof (cases "n < 10")
    case True
    then show ?thesis using d [of n] by (subst decimal.simps) simp
  next
    case False
    then show ?thesis
      using "1.IH" d [of "n mod 10"] by (subst decimal.simps) auto
  qed
qed

lemma ordinalSuffix_no_slash:
  assumes "n \<le> 9007199254740991"
  shows "CHR ''/'' \<notin> set (ordinalSuffix P (JNum (Fin (of_nat n))))"
proof -
  have "CHR ''/'' \<notin> set (decimal n)"
    using decimal_digits [of n] by auto
  then show ?thesis
    unfolding ordinalSuffix_small [OF assms] by simp
qed

lemma plain_pathname_hr187:
  "plain_pathname ''https://www.congress.gov/bill/119th-congress/house-bill/187''
     = Some ''/bill/119th-congress/house-bill/187''"
  by (simp add: plain_pathname_def Let_def)

text \<open>
  Claim C1, as amended. The claim says that re-parsing the derived URL through the fallback
  gives back the congress, type and number the URL was built from; it gives back the
  segments of the public URL instead. For a bill whose congress is a positive safe integer,
  whose type code is in the slug table and whose number has a digit, the primary path
  builds the URL, and the fallback's reading of that URL (given the path the runtime's
  parser returns for it) is the triple of the ordinal segment \<open><ordinal>-congress\<close>, the
  slug and the digits of the number.
\<close>

theorem public_url_reparse:
  assumes "bill_congress b = JNum (Fin (of_nat n))" and "0 < n" and "n \<le> 9007199254740991"
      and "bill_type b = JStr ty" and "map_of TYPE_MAP (toLowerCase ty) = Some slug"
      and "truthy (bill_number b)" and "filter is_digit (to_string P (bill_number b)) = num"
      and "num \<noteq> []"
      and "URL_pathname P (public_url (ordinalSuffix P (JNum (Fin (of_nat n)))) slug num)
             = Some (''/bill/'' @ ordinalSuffix P (JNum (Fin (of_nat n))) @ ''-congress/''
                      @ slug @ ''/'' @ num)"
  shows "buildPublicUrl P b = Inr (public_url (ordinalSuffix P (JNum (Fin (of_nat n)))) slug num)
       \<and> url_bill_parts P (public_url (ordinalSuffix P (JNum (Fin (of_nat n)))) slug num)
           = Some (ordinalSuffix P (JNum (Fin (of_nat n))) @ ''-congress'', slug, num)"
proof -
  let ?ord = "ordinalSuffix P (JNum (Fin (of_nat n)))"
  have c: "truthy (bill_congress b)"
    using assms(1,2) by simp
  have built: "buildPublicUrl P b = Inr (public_url ?ord slug num)"
    using buildPublicUrl_primary [OF c assms(4,5,6)] assms(1,7,8)
    by (simp add: public_url_def)
  have s: "slug \<noteq> []" "CHR ''/'' \<notin> set slug" "toLowerCase slug = slug"
    using TYPE_MAP_entry [OF assms(5)] by simp_all
  have a: "CHR ''/'' \<notin> set (?ord @ ''-congress'')" "?ord @ ''-congress'' \<noteq> []"
    using ordinalSuffix_no_slash [OF assms(3), of P] by simp_all
  have d: "CHR ''/'' \<notin> set num"
    using assms(7) by (auto simp: is_digit_def)
  have parts: "filter (\<lambda>p. p \<noteq> [])
                 (split_on CHR ''/'' (''/bill/'' @ (?ord @ ''-congress'') @ ''/'' @ slug @ ''/'' @ num))
               = [''bill'', ?ord @ ''-congress'', slug, num]"
    by (rule bill_path_parts [OF a(1) s(2) d a(2) s(1) assms(8)])
  have "url_bill_parts P (public_url ?ord slug num) = Some (?ord @ ''-congress'', slug, num)"
    unfolding url_bill_parts_def assms(9) using parts s(3) by simp
  with built show ?thesis by simp
qed

theorem public_url_reparse_witness:
  "buildPublicUrl plain_platform hr187 = Inr ''https://www.congress.gov/bill/119th-congress/house-bill/187''
   \<and> url_bill_parts plain_platform ''https://www.congress.gov/bill/119th-congress/house-bill/187''
       = Some (''119th-congress'', ''house-bill'', ''187'')"
proof -
  have o: "ordinalSuffix plain_platform (JNum (Fin (of_nat 119))) = ''119th''"
    using ordinalSuffix_119 [of plain_platform] by simp
  have m: "map_of TYPE_MAP (toLowerCase ''hr'') = Some ''house-bill''"
    by code_simp
  have d: "filter is_digit (to_string plain_platform (bill_number hr187)) = ''187''"
    by (simp add: hr187_def is_digit_def)
  have p: "URL_pathname plain_platform
             (public_url (ordinalSuffix plain_platform (JNum (Fin (of_nat 119)))) ''house-bill'' ''187'')
           = Some (''/bill/'' @ ordinalSuffix plain_platform (JNum (Fin (of_nat 119))) @ ''-congress/''
                      @ ''house-bill'' @ ''/'' @ ''187'')"
    unfolding o using plain_pathname_hr187 by (simp add: plain_platform_def public_url_def)
  have "buildPublicUrl plain_platform hr187
          = Inr (public_url (ordinalSuffix plain_platform (JNum (Fin (of_nat 119)))) ''house-bill'' ''187'')
       \<and> url_bill_parts plain_platform
            (public_url (ordinalSuffix plain_platform (JNum (Fin (of_nat 119)))) ''house-bill'' ''187'')
           = Some (ordinalSuffix plain_platform (JNum (Fin (of_nat 119))) @ ''-congress'', ''house-bill'', ''187'')"
    by (rule public_url_reparse [OF _ _ _ _ m _ d _ p]) (simp_all add: hr187_def)
  then show ?thesis
    unfolding o by (simp add: public_url_def)
qed

theorem reparse_counterexample:
  "buildPublicUrl plain_platform
      \<lparr>bill_congress = JNum (Fin 119), bill_type = JStr ''hr'', bill_number = JStr ''187'',
       bill_url = JUndefined, bill_apiUrl = JUndefined\<rparr>
     = Inr ''https://www.congress.gov/bill/119th-congress/house-bill/187''
   \<and> url_bill_parts plain_platform ''https://www.congress.gov/bill/119th-congress/house-bill/187''
     = Some (''119th-congress'', ''house-bill'', ''187'')
   \<and> (''119th-congress'', ''house-bill'', ''187'') \<noteq> (''119'', ''hr'', ''187'')"
  by code_simp

section \<open>The state-bills handler\<close>

lemma STATE_values_nonempty:
  assumes "map_of STATE_NAME_TO_ABBR k = Some v"
  shows "v \<noteq> []"
proof -
  from assms have "(k, v) \<in> set STATE_NAME_TO_ABBR"
    by (rule map_of_SomeD)
  then show ?thesis
    unfolding STATE_NAME_TO_ABBR_def by auto
qed

lemma upper_unit_nonempty: "upper_unit P c \<noteq> []"
  by (simp add: upper_unit_def Let_def)

lemma toUpperCase_nonempty: "s \<noteq> [] \<Longrightarrow> toUpperCase P s \<noteq> []"
  by (cases s) (simp_all add: toUpperCase_def upper_unit_nonempty)

lemma truthy_normalizeState:
  assumes "map_of Object_prototype (toLowerCase (trim (to_string P (or_else input (JStr ''''))))) = None"
  shows "truthy (normalizeState P input) =
           (let s = trim (to_string P (or_else input (JStr ''''))) in
              s \<noteq> [] \<and> (length s = 2 \<or> map_of STATE_NAME_TO_ABBR (toLowerCase s) \<noteq> None))"
proof -
  let ?s = "trim (to_string P (or_else input (JStr '''')))"
  have u: "toUpperCase P ?s \<noteq> []" if "length ?s = 2"
  proof -
    from that have "?s \<noteq> []"
      by auto
    then show ?thesis
      by (rule toUpperCase_nonempty)
  qed
  show ?thesis
    using assms u
    by (auto simp: normalizeState_def Let_def get_property_def or_else_def
             dest: STATE_values_nonempty split: option.splits)
qed

text \<open>
  A name behind a no-break space is trimmed and found; two Latin-1 letters are taken as a
  code and upper-cased, the sharp s to two letters.
\<close>

lemma normalizeState_nbsp:
  "normalizeState plain_platform (JStr (CHR 0xA0 # ''Arizona'')) = JStr ''AZ''"
  by code_simp

lemma normalizeState_latin1:
  "normalizeState plain_platform (JStr [CHR 0xE9, CHR 0xDF]) = JStr [CHR 0xC9, CHR ''S'', CHR ''S'']"
  by code_simp

lemma state_bills_status:
  "statusCode (state_bills_handler P apiKey callLegiScan qs) \<in> {200, 400, 500}"
  by (simp add: state_bills_handler_def Let_def split: sum.splits)

text \<open>
  Claim C5, as amended. With the API key configured, the handler answers 400 exactly when
  the trimmed \<open>state\<close> parameter is empty, or is not two characters long and, lower-cased,
  is none of the 51 names of the table (the 50 states and the District of Columbia). A
  value of two characters is taken as a code as it is, upper-cased and not checked against
  the table. (Stated for parameters that are not the name of a property every object
  inherits.)
\<close>

theorem state_bills_400:
  assumes "truthy apiKey"
      and "map_of Object_prototype
             (toLowerCase (trim (to_string P (or_else (q_state qs) (JStr ''''))))) = None"
  shows "(statusCode (state_bills_handler P apiKey callLegiScan qs) = 400) =
           (let s = trim (to_string P (or_else (q_state qs) (JStr ''''))) in
              s = [] \<or> (length s \<noteq> 2 \<and> map_of STATE_NAME_TO_ABBR (toLowerCase s) = None))"
  using assms(1) truthy_normalizeState [OF assms(2)]
  by (auto simp: state_bills_handler_def Let_def split: sum.splits)

lemma trim_Atlantis: "trim ''Atlantis'' = ''Atlantis''"
  by code_simp

lemma lower_Atlantis: "toLowerCase ''Atlantis'' = ''atlantis''"
  by code_simp

lemma Atlantis_unknown:
  "map_of Object_prototype ''atlantis'' = None \<and> map_of STATE_NAME_TO_ABBR ''atlantis'' = None"
  by code_simp

theorem state_bills_400_witness:
  "truthy (JStr ''key'')
   \<and> statusCode (state_bills_handler plain_platform (JStr ''key'') two_bills
        \<lparr>q_state = JStr ''Atlantis'', q_limit = JUndefined, q_offset = JUndefined\<rparr>) = 400"
proof -
  have s: "trim (to_string plain_platform
             (or_else (q_state \<lparr>q_state = JStr ''Atlantis'', q_limit = JUndefined, q_offset = JUndefined\<rparr>)
                (JStr ''''))) = ''Atlantis''"
    by (simp add: or_else_def trim_Atlantis)
  show ?thesis
    using state_bills_400 [of "JStr ''key''" plain_platform
        "\<lparr>q_state = JStr ''Atlantis'', q_limit = JUndefined, q_offset = JUndefined\<rparr>" two_bills]
    unfolding s Let_def lower_Atlantis using Atlantis_unknown by simp
qed

theorem two_letter_counterexample:
  "\<not> resolves_to_a_state ''ZZ''
   \<and> statusCode (state_bills_handler plain_platform (JStr ''key'') two_bills
        \<lparr>q_state = JStr ''ZZ'', q_limit = JUndefined, q_offset = JUndefined\<rparr>) = 200
   \<and> statusCode (state_bills_handler plain_platform (JStr ''key'') legiscan_fails
        \<lparr>q_state = JStr ''ZZ'', q_limit = JUndefined, q_offset = JUndefined\<rparr>) = 500"
  by code_simp

text \<open>
  Claim C10. For every request that reaches the listing (the key is configured, the state
  is accepted and the upstream call returns), the page size is \<open>min(floor(n), 200)\<close> when
  \<open>Number(limit)\<close> is a finite \<open>n\<close> at least 0 and 50 otherwise, the offset is \<open>floor(n)\<close>
  for such an \<open>n\<close> and 0 otherwise, and the handler answers 200 with exactly the bills of
  the master list from that offset on, at most a page of them, each normalized;
  \<open>pagination\<close> repeats the page size and the offset, and its \<open>returned\<close> is the length of
  the \<open>bills\<close> array, which is the smaller of the page size and the number of bills left
  after the offset, and so at most 200.
\<close>

theorem state_bills_pagination:
  assumes "truthy apiKey" and "truthy (normalizeState P (q_state qs))"
      and "callLegiScan (to_string P (normalizeState P (q_state qs))) = Inr masterlist"
  shows "let limit = effective_limit P (q_limit qs);
             offset = effective_offset P (q_offset qs);
             page = take limit (drop offset (billsRaw masterlist))
         in state_bills_handler P apiKey callLegiScan qs
              = \<lparr>statusCode = 200,
                 body = BillsBody (map (normalizeBill P (normalizeState P (q_state qs))) page)
                          \<lparr>pg_limit = limit, pg_offset = offset, pg_returned = length page,
                           pg_total_estimate = length (billsRaw masterlist)\<rparr>
                          ''legiscan''\<rparr>
            \<and> length (map (normalizeBill P (normalizeState P (q_state qs))) page) = length page
            \<and> length page = min limit (length (billsRaw masterlist) - offset)
            \<and> length page \<le> 200"
proof -
  have l: "min (toInt P (q_limit qs) 50) 200 = effective_limit P (q_limit qs)"
    by (simp add: toInt_def effective_limit_def split: jsnum.splits)
  have o: "toInt P (q_offset qs) 0 = effective_offset P (q_offset qs)"
    by (simp add: toInt_def effective_offset_def split: jsnum.splits)
  have b: "effective_limit P (q_limit qs) \<le> 200"
    unfolding l [symmetric] by simp
  have h: "state_bills_handler P apiKey callLegiScan qs
             = \<lparr>statusCode = 200,
                body = BillsBody
                         (map (normalizeBill P (normalizeState P (q_state qs)))
                            (take (effective_limit P (q_limit qs))
                               (drop (effective_offset P (q_offset qs)) (billsRaw masterlist))))
                         \<lparr>pg_limit = effective_limit P (q_limit qs),
                          pg_offset = effective_offset P (q_offset qs),
                          pg_returned =
                            length (take (effective_limit P (q_limit qs))
                                      (drop (effective_offset P (q_offset qs)) (billsRaw masterlist))),
                          pg_total_estimate = length (billsRaw masterlist)\<rparr>
                         ''legiscan''\<rparr>"
    unfolding state_bills_handler_def Let_def l o
    using assms by simp
  have n: "length (take (effective_limit P (q_limit qs))
                     (drop (effective_offset P (q_offset qs)) (billsRaw masterlist)))
             = min (effective_limit P (q_limit qs))
                 (length (billsRaw masterlist) - effective_offset P (q_offset qs))"
    by (simp add: min.commute)
  from h n b show ?thesis
    unfolding Let_def by simp
qed

lemma az_accepted:
  "normalizeState plain_platform
     (q_state \<lparr>q_state = JStr '' az'', q_limit = JStr ''1'', q_offset = JStr ''1''\<rparr>) = JStr ''AZ''"
  by code_simp

lemma limit_one:
  "effective_limit plain_platform
     (q_limit \<lparr>q_state = JStr '' az'', q_limit = JStr ''1'', q_offset = JStr ''1''\<rparr>) = 1"
  by code_simp

lemma offset_one:
  "effective_offset plain_platform
     (q_offset \<lparr>q_state = JStr '' az'', q_limit = JStr ''1'', q_offset = JStr ''1''\<rparr>) = 1"
  by code_simp

lemma two_bills_raw:
  "billsRaw [(''0'', Some (bill_fields ''HB 1'' ''Passed House'')),
             (''1'', Some (bill_fields ''SB 2'' ''Referred to committee'')),
             (''session'', Some (bill_fields '''' ''''))]
     = [bill_fields ''HB 1'' ''Passed House'', bill_fields ''SB 2'' ''Referred to committee'']"
  by (simp add: billsRaw_def)

theorem state_bills_pagination_witness:
  "truthy (JStr ''key'')
   \<and> state_bills_handler plain_platform (JStr ''key'') two_bills
        \<lparr>q_state = JStr '' az'', q_limit = JStr ''1'', q_offset = JStr ''1''\<rparr>
       = \<lparr>statusCode = 200,
          body = BillsBody
                   [normalizeBill plain_platform (JStr ''AZ'')
                      (bill_fields ''SB 2'' ''Referred to committee'')]
                   \<lparr>pg_limit = 1, pg_offset = 1, pg_returned = 1, pg_total_estimate = 2\<rparr>
                   ''legiscan''\<rparr>"
proof -
  have k: "truthy (JStr ''key'')"
    by simp
  have t: "truthy (normalizeState plain_platform
             (q_state \<lparr>q_state = JStr '' az'', q_limit = JStr ''1'', q_offset = JStr ''1''\<rparr>))"
    unfolding az_accepted by simp
  have c: "two_bills (to_string plain_platform (normalizeState plain_platform
             (q_state \<lparr>q_state = JStr '' az'', q_limit = JStr ''1'', q_offset = JStr ''1''\<rparr>)))
           = Inr [(''0'', Some (bill_fields ''HB 1'' ''Passed House'')),
                  (''1'', Some (bill_fields ''SB 2'' ''Referred to committee'')),
                  (''session'', Some (bill_fields '''' ''''))]"
    by (simp add: two_bills_def)
  show ?thesis
    using state_bills_pagination [where apiKey = "JStr ''key''" and P = plain_platform
        and callLegiScan = two_bills
        and qs = "\<lparr>q_state = JStr '' az'', q_limit = JStr ''1'', q_offset = JStr ''1''\<rparr>",
        OF k t c] k
    unfolding Let_def limit_one offset_one two_bills_raw az_accepted by simp
qed

section \<open>The verification endpoint\<close>

lemma verify_response_200: "statusCode (verify_response c outcome) = 200"
  by (cases outcome) (simp_all add: verify_response_def)

lemma verifyCity_all_failed:
  "verifyCity P c ts (Inl m1) (Inl m2) (Inl m3) =
     \<lparr>rp_client = c, rp_portal = ''https://'' @ c @ ''.legistar.com'',
      rp_persons = failed_check m1, rp_legislation = failed_check m2,
      rp_events = failed_check m3, rp_overallPass = False, rp_timestamp = ts\<rparr>"
  by (simp add: verifyCity_def failed_check_def)

text \<open>
  Claim C9. For every request with \<open>type=verify\<close> and a non-empty \<open>client\<close> parameter the
  handler answers with status 200, whatever the three probes return; the response built
  from the outcome of the verification has status 200 also when the verification threw,
  and then carries \<open>overallPass = false\<close> and the error's message in its body; and when all
  three probes fail, the report has \<open>overallPass = false\<close> and each check holds its
  probe's error message.
\<close>

theorem verify_status_200:
  assumes "rq_type event = JStr ''verify''" and "truthy (rq_client event)"
  shows "(\<exists>r. city_council_handler P timestamp persons_probe matters_probe events_probe event = Some r
            \<and> statusCode r = 200)
       \<and> statusCode (verify_response (to_string P (rq_client event)) outcome) = 200
       \<and> verify_response (to_string P (rq_client event)) (Inl message)
           = \<lparr>statusCode = 200,
              body = VerificationFailed (to_string P (rq_client event)) False message CouldNotConnect\<rparr>
       \<and> (rq_httpMethod event \<noteq> ''OPTIONS'' \<longrightarrow>
            (\<exists>report.
               city_council_handler P timestamp (Inl m1) (Inl m2) (Inl m3) event
                 = Some \<lparr>statusCode = 200, body = VerificationReport report DoNotAddYet\<rparr>
               \<and> rp_overallPass report = False
               \<and> rp_persons report = \<lparr>ck_pass = False, ck_count = 0, ck_sample = [], ck_error = Some m1\<rparr>
               \<and> rp_legislation report = \<lparr>ck_pass = False, ck_count = 0, ck_sample = [], ck_error = Some m2\<rparr>
               \<and> rp_events report = \<lparr>ck_pass = False, ck_count = 0, ck_sample = [], ck_error = Some m3\<rparr>))"
proof -
  have a: "\<exists>r. city_council_handler P timestamp persons_probe matters_probe events_probe event = Some r
            \<and> statusCode r = 200"
    using assms by (simp add: city_council_handler_def Let_def verify_response_200)
  have b: "statusCode (verify_response (to_string P (rq_client event)) outcome) = 200"
    by (rule verify_response_200)
  have c: "verify_response (to_string P (rq_client event)) (Inl message)
           = \<lparr>statusCode = 200,
              body = VerificationFailed (to_string P (rq_client event)) False message CouldNotConnect\<rparr>"
    by (simp add: verify_response_def)
  have d: "rq_httpMethod event \<noteq> ''OPTIONS'' \<longrightarrow>
            (\<exists>report.
               city_council_handler P timestamp (Inl m1) (Inl m2) (Inl m3) event
                 = Some \<lparr>statusCode = 200, body = VerificationReport report DoNotAddYet\<rparr>
               \<and> rp_overallPass report = False
               \<and> rp_persons report = \<lparr>ck_pass = False, ck_count = 0, ck_sample = [], ck_error = Some m1\<rparr>
               \<and> rp_legislation report = \<lparr>ck_pass = False, ck_count = 0, ck_sample = [], ck_error = Some m2\<rparr>
               \<and> rp_events report = \<lparr>ck_pass = False, ck_count = 0, ck_sample = [], ck_error = Some m3\<rparr>)"
    using assms
    by (simp add: city_council_handler_def Let_def verify_response_def verifyCity_all_failed
          failed_check_def)
  from a b c d show ?thesis by blast
qed

theorem verify_status_200_witness:
  "rq_type \<lparr>rq_httpMethod = ''GET'', rq_type = JStr ''verify'', rq_client = JStr ''glendale-az''\<rparr>
     = JStr ''verify''
   \<and> (\<exists>report.
         city_council_handler plain_platform ''2026-03-01T00:00:00.000Z''
           (Inl ''Legistar API error: 404'') (Inl ''Legistar API error: 404'')
           (Inl ''Legistar API error: 404'')
           \<lparr>rq_httpMethod = ''GET'', rq_type = JStr ''verify'', rq_client = JStr ''glendale-az''\<rparr>
           = Some \<lparr>statusCode = 200, body = VerificationReport report DoNotAddYet\<rparr>
         \<and> rp_overallPass report = False)"
  using verify_status_200 [where P = plain_platform and timestamp = "''2026-03-01T00:00:00.000Z''"
      and event = "\<lparr>rq_httpMethod = ''GET'', rq_type = JStr ''verify'', rq_client = JStr ''glendale-az''\<rparr>"
      and ?m1.0 = "''Legistar API error: 404''" and ?m2.0 = "''Legistar API error: 404''"
      and ?m3.0 = "''Legistar API error: 404''" and message = "[]" and outcome = "Inl []"
      and persons_probe = "Inl []" and matters_probe = "Inl []" and events_probe = "Inl []"]
  by auto

section \<open>The vote summary\<close>

lemma bucket_sum:
  "length (filter counts_yes vs) + length (filter counts_no vs)
     + length (filter counts_absent vs) + length (filter counts_abstain vs)
   = sum_list (map buckets vs)"
  by (induction vs) (simp_all add: buckets_def)

lemma sum_list_le_length:
  "list_all (\<lambda>v. f v \<le> (1::nat)) vs \<Longrightarrow> sum_list (map f vs) \<le> length vs"
  by (induction vs) auto

text \<open>
  Claim C2, as amended. The claim says the four keyword buckets are disjoint on every
  label, so that a record is in exactly one class and the four counts sum to at most the
  total; the four counts are independent filters, and a label can hold keywords of several
  buckets. What holds: each count is at most the total; the four counts sum to the number
  of bucket memberships of the records (a record matching no keyword adds nothing); and
  when every record's label matches at most one bucket, the sum is at most the total.
\<close>

theorem summary_counts:
  "vs_yes (summary votes) \<le> vs_total (summary votes)
   \<and> vs_no (summary votes) \<le> vs_total (summary votes)
   \<and> vs_absent (summary votes) \<le> vs_total (summary votes)
   \<and> vs_abstain (summary votes) \<le> vs_total (summary votes)
   \<and> vs_yes (summary votes) + vs_no (summary votes) + vs_absent (summary votes)
       + vs_abstain (summary votes) = sum_list (map buckets votes)
   \<and> (list_all (\<lambda>v. buckets v \<le> 1) votes \<longrightarrow>
        vs_yes (summary votes) + vs_no (summary votes) + vs_absent (summary votes)
          + vs_abstain (summary votes) \<le> vs_total (summary votes))"
proof -
  have s: "vs_yes (summary votes) + vs_no (summary votes) + vs_absent (summary votes)
       + vs_abstain (summary votes) = sum_list (map buckets votes)"
    using bucket_sum [of votes] by (simp add: summary_def)
  have "list_all (\<lambda>v. buckets v \<le> 1) votes \<longrightarrow> sum_list (map buckets votes) \<le> length votes"
    using sum_list_le_length [of buckets votes] by blast
  then have l: "list_all (\<lambda>v. buckets v \<le> 1) votes \<longrightarrow>
        vs_yes (summary votes) + vs_no (summary votes) + vs_absent (summary votes)
          + vs_abstain (summary votes) \<le> vs_total (summary votes)"
    unfolding s by (simp add: summary_def)
  have "vs_yes (summary votes) \<le> vs_total (summary votes)"
    "vs_no (summary votes) \<le> vs_total (summary votes)"
    "vs_absent (summary votes) \<le> vs_total (summary votes)"
    "vs_abstain (summary votes) \<le> vs_total (summary votes)"
    by (simp_all add: summary_def)
  with s l show ?thesis by blast
qed

lemma ten_votes_buckets: "list_all (\<lambda>v. buckets v \<le> 1) ten_votes"
  by code_simp

lemma ten_votes_summary:
  "summary ten_votes = \<lparr>vs_total = 10, vs_yes = 7, vs_no = 1, vs_absent = 2, vs_abstain = 0\<rparr>"
  by code_simp

theorem summary_counts_witness:
  "list_all (\<lambda>v. buckets v \<le> 1) ten_votes
   \<and> summary ten_votes = \<lparr>vs_total = 10, vs_yes = 7, vs_no = 1, vs_absent = 2, vs_abstain = 0\<rparr>
   \<and> vs_yes (summary ten_votes) + vs_no (summary ten_votes) + vs_absent (summary ten_votes)
       + vs_abstain (summary ten_votes) \<le> vs_total (summary ten_votes)"
  using summary_counts [of ten_votes] ten_votes_buckets ten_votes_summary by blast

theorem not_present_counterexample:
  "counts_no (vote_labelled ''Not Present'') \<and> counts_abstain (vote_labelled ''Not Present'')
   \<and> summary [vote_labelled ''Not Present'']
       = \<lparr>vs_total = 1, vs_yes = 0, vs_no = 1, vs_absent = 0, vs_abstain = 1\<rparr>"
  by code_simp

section \<open>The roster\<close>

lemma isActive_iff:
  "isActive now d = (d = NoEndDate \<or> (\<exists>t. d = EndDate t \<and> now < t))"
  by (cases d) auto

lemma activeCouncilOffices_iff:
  "(r \<in> set (activeCouncilOffices now ids recs)) =
     (r \<in> set recs \<and> (ids = [] \<or> OfficeRecordBodyId r \<in> set ids)
      \<and> (OfficeRecordEndDate r = NoEndDate \<or> (\<exists>t. OfficeRecordEndDate r = EndDate t \<and> now < t)))"
  by (auto simp: activeCouncilOffices_def isActive_iff)

lemma city_council_is_primary:
  "list_ex (str_includes (lower_name (Some ''City Council''))) primaryKeywords"
  by code_simp

lemma councilBodies_single:
  assumes "BodyName b = Some ''City Council''" and "BodyActiveFlag b = 1"
  shows "councilBodies [b] = [b]"
  using assms city_council_is_primary by (simp add: councilBodies_def)

lemma filter_unique_id:
  assumes "distinct (map f xs)" and "a \<in> f ` set xs"
  shows "\<exists>x. filter (\<lambda>p. f p = a) xs = [x] \<and> f x = a"
  using assms
proof (induction xs)
  case Nil
  then show ?case by simp
next
  case (Cons y ys)
  show ?case
  proof (cases "f y = a")
    case True
    with Cons.prems(1) have "a \<notin> f ` set ys"
      by simp
    then have "\<forall>p \<in> set ys. f p \<noteq> a"
      by blast
    then have "filter (\<lambda>p. f p = a) ys = []"
      by (simp add: filter_empty_conv)
    with True show ?thesis by simp
  next
    case False
    with Cons.prems have "distinct (map f ys)" and "a \<in> f ` set ys"
      by auto
    from Cons.IH [OF this] False show ?thesis by simp
  qed
qed

text \<open>
  Claim C6. An office record is treated as currently active exactly when its end date is
  absent or strictly after the current time. Consequently, with one active body named
  \<open>City Council\<close>, two office records in that body, one without an end date and one whose
  end date is in the past, and three persons with distinct identifiers that include both
  record holders, the response lists exactly one member: the person of the record without
  an end date.
\<close>

theorem roster_active_member:
  assumes "BodyName b = Some ''City Council''" and "BodyActiveFlag b = 1"
      and "OfficeRecordBodyId r1 = BodyId b" and "OfficeRecordBodyId r2 = BodyId b"
      and "OfficeRecordEndDate r1 = NoEndDate"
      and "OfficeRecordEndDate r2 = EndDate t" and "t < now"
      and "offices = [r1, r2] \<or> offices = [r2, r1]"
      and "length persons = 3" and "distinct (map PersonId persons)"
      and "OfficeRecordPersonId r1 \<in> PersonId ` set persons"
      and "OfficeRecordPersonId r2 \<in> PersonId ` set persons"
  shows "isActive now d = (d = NoEndDate \<or> (\<exists>u. d = EndDate u \<and> now < u))
       \<and> (\<exists>m. council_members now (Inr [b]) (Inr offices) (Inr persons) persons_ordered persons_plain
                 = \<lparr>statusCode = 200,
                    body = \<lparr>mb_members = [m], mb_totalMembers = 1, mb_councilBodiesFound = 1\<rparr>\<rparr>
               \<and> m_id m = OfficeRecordPersonId r1)"
proof -
  have ids: "map BodyId (councilBodies (fetched (Inr [b]))) = [BodyId b]"
    using councilBodies_single [OF assms(1,2)] by (simp add: fetched_def)
  have act: "activeCouncilOffices now [BodyId b] (fetched (Inr offices)) = [r1]"
    using assms(3-8) by (auto simp: activeCouncilOffices_def fetched_def)
  have u: "unique (map OfficeRecordPersonId [r1]) = [OfficeRecordPersonId r1]"
    by (simp add: unique_def)
  obtain p where p: "filter (\<lambda>q. PersonId q = OfficeRecordPersonId r1) persons = [p]"
      and pid: "PersonId p = OfficeRecordPersonId r1"
    using filter_unique_id [OF assms(10,11)] by blast
  have ne: "length (fetched (Inr persons)) \<noteq> 0"
    using assms(9) by (simp add: fetched_def)
  have "council_members now (Inr [b]) (Inr offices) (Inr persons) persons_ordered persons_plain
          = \<lparr>statusCode = 200,
             body = \<lparr>mb_members = [enrich [r1] p], mb_totalMembers = 1, mb_councilBodiesFound = 1\<rparr>\<rparr>"
    unfolding council_members_def Let_def ids act u
    using ne p by (simp add: fetched_def)
  moreover have "m_id (enrich [r1] p) = OfficeRecordPersonId r1"
    using pid by (simp add: enrich_def Let_def)
  ultimately show ?thesis
    using isActive_iff [of now d] by blast
qed

theorem roster_active_member_witness:
  "\<exists>m. council_members 2000 (Inr [city_council_body])
          (Inr [office_of 10 1 NoEndDate, office_of 20 1 (EndDate 1000)])
          (Inr [person_named 10 ''Ann Lee'', person_named 20 ''Bo Cruz'', person_named 30 ''Cy Diaz''])
          (Inl []) (Inl [])
        = \<lparr>statusCode = 200,
           body = \<lparr>mb_members = [m], mb_totalMembers = 1, mb_councilBodiesFound = 1\<rparr>\<rparr>
      \<and> m_id m = 10"
  using roster_active_member [where b = city_council_body and ?r1.0 = "office_of 10 1 NoEndDate"
      and ?r2.0 = "office_of 20 1 (EndDate 1000)" and t = 1000 and now = 2000
      and offices = "[office_of 10 1 NoEndDate, office_of 20 1 (EndDate 1000)]"
      and persons = "[person_named 10 ''Ann Lee'', person_named 20 ''Bo Cruz'',
                      person_named 30 ''Cy Diaz'']"
      and persons_ordered = "Inl []" and persons_plain = "Inl []" and d = NoEndDate]
  by (simp add: city_council_body_def office_of_def person_named_def)

end
